theory Spec2Isabelle
  imports Main
begin

section \<open>JavaScript values and the built-in operations the adapter relies on\<close>

text \<open>
  The results of \<^verbatim>\<open>JSON.parse\<close> and of \<^verbatim>\<open>invokeService\<close> are untyped (\<^verbatim>\<open>any\<close>) in
  \<^verbatim>\<open>thingworxDebug.ts\<close>. They are modelled by the values JSON can denote, extended with
  \<^verbatim>\<open>undefined\<close> (the result of reading a property that is not there). The numbers the
  adapter handles are identifiers (thread, frame, sequence and reference numbers) and are
  modelled as integers. An object is the list of its own properties; the first binding of
  a key is its value.
\<close>

datatype jsval =
    JUndefined
  | JNull
  | JBool bool
  | JNum int
  | JStr string
  | JArr "jsval list"
  | JObj "(string \<times> jsval) list"

datatype js_error =
    TypeError
  | SyntaxError
  | TransportError
  | StatusError nat

text \<open>Truthiness, as tested by \<^verbatim>\<open>if (v)\<close> and \<^verbatim>\<open>v || d\<close>.\<close>

fun truthy :: "jsval \<Rightarrow> bool" where
  "truthy JUndefined = False"
| "truthy JNull = False"
| "truthy (JBool b) = b"
| "truthy (JNum n) = (n \<noteq> 0)"
| "truthy (JStr s) = (s \<noteq> [])"
| "truthy (JArr xs) = True"
| "truthy (JObj kvs) = True"

text \<open>
  Property access \<^verbatim>\<open>v.k\<close>. Reading a property of \<^verbatim>\<open>undefined\<close> or \<^verbatim>\<open>null\<close> raises a
  TypeError; on every other value a property that is not an own property is looked up on
  the built-in prototypes. The function is used only with the property names of this
  program (\<^verbatim>\<open>name\<close>, \<^verbatim>\<open>rows\<close>, \<^verbatim>\<open>authenticated\<close>, \<^verbatim>\<open>threadID\<close>, ...), none of which a
  built-in prototype defines, so such a lookup gives \<^verbatim>\<open>undefined\<close>.
\<close>

fun get_prop :: "jsval \<Rightarrow> string \<Rightarrow> js_error + jsval" where
  "get_prop JUndefined k = Inl TypeError"
| "get_prop JNull k = Inl TypeError"
| "get_prop (JObj kvs) k = Inr (case map_of kvs k of None \<Rightarrow> JUndefined | Some v \<Rightarrow> v)"
| "get_prop v k = Inr JUndefined"

text \<open>
  The values a \<^verbatim>\<open>for (const x of v)\<close> loop visits: the elements of an array, the
  characters of a string; any other value is not iterable and raises a TypeError.
\<close>

fun iterate :: "jsval \<Rightarrow> js_error + jsval list" where
  "iterate (JArr xs) = Inr xs"
| "iterate (JStr s) = Inr (map (\<lambda>c. JStr [c]) s)"
| "iterate v = Inl TypeError"

text \<open>Decimal notation of a number, as \<^verbatim>\<open>toFixed()\<close> and string conversion print it.\<close>

definition digit_char :: "nat \<Rightarrow> char" where
  "digit_char d =
     (if d = 0 then CHR ''0'' else if d = 1 then CHR ''1'' else if d = 2 then CHR ''2''
      else if d = 3 then CHR ''3'' else if d = 4 then CHR ''4'' else if d = 5 then CHR ''5''
      else if d = 6 then CHR ''6'' else if d = 7 then CHR ''7'' else if d = 8 then CHR ''8''
      else CHR ''9'')"

fun nat_to_string :: "nat \<Rightarrow> string" where
  "nat_to_string n =
     (if n < 10 then [digit_char n] else nat_to_string (n div 10) @ [digit_char (n mod 10)])"

definition int_to_string :: "int \<Rightarrow> string" where
  "int_to_string i = (if i < 0 then CHR ''-'' # nat_to_string (nat (- i)) else nat_to_string (nat i))"

declare nat_to_string.simps [simp del]

text \<open>
  String conversion (\<^verbatim>\<open>ToString\<close>), as applied by \<^verbatim>\<open>v + '\n'\<close> and by the use of a value
  as a property key. An array prints its elements separated by commas, with \<^verbatim>\<open>null\<close> and
  \<^verbatim>\<open>undefined\<close> elements printed as the empty string. An object prints as
  \<^verbatim>\<open>[object Object]\<close> through the inherited \<^verbatim>\<open>toString\<close>; an object parsed from JSON
  that has an own property \<^verbatim>\<open>toString\<close> hides the inherited method by a value that cannot
  be called, and the conversion raises a TypeError.
\<close>

fun ToString :: "jsval \<Rightarrow> js_error + string"
  and join_elements :: "jsval list \<Rightarrow> js_error + string" where
  "ToString JUndefined = Inr ''undefined''"
| "ToString JNull = Inr ''null''"
| "ToString (JBool b) = Inr (if b then ''true'' else ''false'')"
| "ToString (JNum n) = Inr (int_to_string n)"
| "ToString (JStr s) = Inr s"
| "ToString (JArr xs) = join_elements xs"
| "ToString (JObj kvs) =
     (case map_of kvs ''toString'' of None \<Rightarrow> Inr ''[object Object]'' | Some f \<Rightarrow> Inl TypeError)"
| "join_elements [] = Inr []"
| "join_elements (x # xs) =
     (case (if x = JUndefined \<or> x = JNull then Inr [] else ToString x) of
        Inl e \<Rightarrow> Inl e
      | Inr t \<Rightarrow>
          (if xs = [] then Inr t
           else (case join_elements xs of Inl e \<Rightarrow> Inl e | Inr r \<Rightarrow> Inr (t @ '','' @ r))))"

section \<open>Protocol messages\<close>

text \<open>
  The descriptors the adapter builds for the frontend. A field holds the value the
  constructor or object literal of the source is given, so a field read from a row of a
  remote result is a \<^typ>\<open>jsval\<close>.
\<close>

record exception_filter =
  filter' :: string
  label :: string
  description :: string
  default' :: bool
  supportsCondition :: bool
  conditionDescription :: string

record capabilities =
  supportsConfigurationDoneRequest :: "bool option"
  supportsEvaluateForHovers :: "bool option"
  supportsStepBack :: "bool option"
  supportsDataBreakpoints :: "bool option"
  supportsCompletionsRequest :: "bool option"
  completionTriggerCharacters :: "string list option"
  supportsCancelRequest :: "bool option"
  supportsBreakpointLocationsRequest :: "bool option"
  supportsStepInTargetsRequest :: "bool option"
  supportsExceptionFilterOptions :: "bool option"
  exceptionBreakpointFilters :: "exception_filter list option"
  supportsExceptionInfoRequest :: "bool option"
  supportsSetVariable :: "bool option"
  supportsSetExpression :: "bool option"
  supportsDisassembleRequest :: "bool option"
  supportsSteppingGranularity :: "bool option"
  supportsInstructionBreakpoints :: "bool option"

record source =
  src_name :: "string option"
  src_path :: "string option"

record breakpoint =
  bp_verified :: jsval
  bp_column :: jsval
  bp_endColumn :: jsval
  bp_endLine :: jsval
  bp_id :: jsval
  bp_line :: jsval
  bp_message :: jsval
  bp_source :: source

record location =
  loc_line :: jsval
  loc_column :: jsval
  loc_endLine :: jsval
  loc_endColumn :: jsval

record stackframe =
  sf_id :: jsval
  sf_name :: jsval
  sf_source_name :: string
  sf_source_path :: string
  sf_line :: jsval
  sf_column :: jsval

record scope =
  sc_name :: jsval
  sc_variablesReference :: jsval
  sc_expensive :: bool

record evaluate_result =
  ev_result :: jsval
  ev_type :: jsval
  ev_variablesReference :: jsval
  ev_presentationHint :: jsval
  ev_indexedVariables :: jsval
  ev_namedVariables :: jsval

record thread =
  th_id :: jsval
  th_name :: string

record set_variable_result =
  sv_value :: jsval
  sv_variablesReference :: jsval
  sv_type :: jsval
  sv_indexedVariables :: jsval
  sv_namedVariables :: jsval

datatype response_body =
    EmptyBody
  | CapabilitiesBody capabilities
  | BreakpointsBody "breakpoint list"
  | BreakpointLocationsBody "location list"
  | ExceptionInfoBody jsval
  | ThreadsBody "thread list"
  | StackTraceBody "stackframe list" "nat option"
  | ScopesBody "scope list"
  | VariablesBody "jsval list"
  | SetVariableBody set_variable_result
  | EvaluateBody evaluate_result
  | ContinueBody bool
  | CompletionsBody "jsval list"

text \<open>
  A response object, as the framework hands it to a request handler: the sequence number
  of the request it answers and a body, which the framework leaves undefined.
\<close>

record response =
  request_seq :: nat
  body :: "response_body option"

record message =
  msg_id :: nat
  format :: string
  showUser :: bool

text \<open>An event is recorded as the constructor call that builds it.\<close>

datatype event =
    InitializedEvent
  | StoppedEvent jsval jsval jsval
  | ContinuedEvent jsval bool
  | LogOutputEvent string jsval

text \<open>
  What a handler does to the outside: the messages it sends to the frontend, the remote
  services it invokes (\<^verbatim>\<open>invokeService(name, args)\<close>), and its calls of the logger and the
  console. A response is recorded as the handler passes it to \<^verbatim>\<open>sendResponse\<close>; an error
  response by the sequence number of the request it answers and the message given to
  \<^verbatim>\<open>sendErrorResponse\<close>.
\<close>

datatype effect =
    SendResponse response
  | SendErrorResponse nat message
  | SendEvent event
  | InvokeService string "(string \<times> jsval) list"
  | LoggerSetup bool
  | ConsoleLog string

section \<open>The session\<close>

text \<open>
  The handlers \<^verbatim>\<open>attachRequest\<close> installs on the socket are closures; each is named by
  what it captures.
\<close>

datatype message_handler = NoMessageHandler | HandshakeHandler response | EventHandler
datatype open_handler = NoOpenHandler | AuthenticateHandler string
datatype error_handler = NoErrorHandler | AttachErrorHandler response | IgnoreErrorHandler

record WebSocket =
  ws_url :: string
  onmessage :: message_handler
  onopen :: open_handler
  onerror :: error_handler
  closed :: bool
  sent :: "jsval list"

text \<open>
  The fields of \<^verbatim>\<open>ThingworxDebugSession\<close>, the socket objects it has created (a store
  from addresses to sockets: the handshake closure and the field \<^verbatim>\<open>_websocket\<close> refer to
  the same object), and the trace of effects so far.
\<close>

record session =
  websocket :: "nat option"
  appKey :: "string option"
  domain :: "string option"
  port :: "string option"
  useSSL :: "bool option"
  cancellationTokens :: "int \<rightharpoonup> bool"
  scopeThreadMapping :: "string \<rightharpoonup> int"
  sockets :: "nat \<rightharpoonup> WebSocket"
  next_socket :: nat
  trace :: "effect list"

definition new_session :: session where
  "new_session =
     \<lparr>websocket = None, appKey = None, domain = None, port = None, useSSL = None,
      cancellationTokens = Map.empty, scopeThreadMapping = Map.empty,
      sockets = Map.empty, next_socket = 0, trace = []\<rparr>"

section \<open>Control flow: exceptions, suspension, try and catch\<close>

text \<open>
  A piece of handler code runs on the session and either returns a value, throws, or is
  suspended for ever at an \<^verbatim>\<open>await\<close> whose promise never settles. The session it leaves
  behind is kept in each case: what was sent before a throw stays sent. A handler is run
  together with what follows its \<^verbatim>\<open>await\<close>: no handler makes more than one remote call,
  and what other handlers do while this one waits is not part of its run.
\<close>

datatype 'a res = Ret 'a | Throw js_error | Suspended

type_synonym 'a action = "session \<Rightarrow> 'a res \<times> session"

definition ret :: "'a \<Rightarrow> 'a action" where
  "ret x s = (Ret x, s)"

definition throw :: "js_error \<Rightarrow> 'a action" where
  "throw e s = (Throw e, s)"

definition and_then :: "'a action \<Rightarrow> ('a \<Rightarrow> 'b action) \<Rightarrow> 'b action" where
  "and_then m f s =
     (case m s of
        (Ret x, s') \<Rightarrow> f x s'
      | (Throw e, s') \<Rightarrow> (Throw e, s')
      | (Suspended, s') \<Rightarrow> (Suspended, s'))"

definition try_catch :: "'a action \<Rightarrow> (js_error \<Rightarrow> 'a action) \<Rightarrow> 'a action" where
  "try_catch m h s =
     (case m s of
        (Ret x, s') \<Rightarrow> (Ret x, s')
      | (Throw e, s') \<Rightarrow> h e s'
      | (Suspended, s') \<Rightarrow> (Suspended, s'))"

text \<open>An expression that may throw, run as a step.\<close>

definition lift :: "js_error + 'a \<Rightarrow> 'a action" where
  "lift r = (case r of Inl e \<Rightarrow> throw e | Inr x \<Rightarrow> ret x)"

definition emit :: "effect \<Rightarrow> unit action" where
  "emit e s = (Ret (), s\<lparr>trace := trace s @ [e]\<rparr>)"

definition sendResponse :: "response \<Rightarrow> unit action" where
  "sendResponse r = emit (SendResponse r)"

definition sendErrorResponse :: "response \<Rightarrow> message \<Rightarrow> unit action" where
  "sendErrorResponse r m = emit (SendErrorResponse (request_seq r) m)"

definition sendEvent :: "event \<Rightarrow> unit action" where
  "sendEvent e = emit (SendEvent e)"

section \<open>Remote service calls\<close>

text \<open>
  \<^verbatim>\<open>invokeService\<close> posts the request and returns a promise, which the callback of the
  HTTP library settles. What the target answers is an input of the model: no answer at
  all, a transport error, or a status code with the body as \<^verbatim>\<open>JSON.parse\<close> reads it
  (\<open>None\<close> when it does not parse).
\<close>

datatype http_reply = NoReply | Failed | Reply nat "jsval option"

datatype promise = Resolved jsval | Rejected js_error | NeverSettles

fun settle :: "http_reply \<Rightarrow> promise" where
  "settle NoReply = NeverSettles"
| "settle Failed = Rejected TransportError"
| "settle (Reply code parsed) =
     (if code \<noteq> 200 then Rejected (StatusError code)
      else (case parsed of None \<Rightarrow> Rejected SyntaxError | Some v \<Rightarrow> Resolved v))"

definition invokeService :: "string \<Rightarrow> (string \<times> jsval) list \<Rightarrow> http_reply \<Rightarrow> promise action" where
  "invokeService name args reply = and_then (emit (InvokeService name args)) (\<lambda>u. ret (settle reply))"

fun await :: "promise \<Rightarrow> jsval action" where
  "await (Resolved v) = ret v"
| "await (Rejected e) = throw e"
| "await NeverSettles = (\<lambda>s. (Suspended, s))"

text \<open>A \<^verbatim>\<open>for ... of\<close> loop that builds up a list: the body runs on each element in turn.\<close>

fun for_each :: "'a list \<Rightarrow> ('a \<Rightarrow> 'b \<Rightarrow> 'b action) \<Rightarrow> 'b \<Rightarrow> 'b action" where
  "for_each [] f acc = ret acc"
| "for_each (x # xs) f acc = and_then (f x acc) (for_each xs f)"

section \<open>Initialize\<close>

record initialize_args =
  supportsProgressReporting :: "bool option"
  supportsInvalidatedEvent :: "bool option"

definition no_capabilities :: capabilities where
  "no_capabilities =
     \<lparr>supportsConfigurationDoneRequest = None, supportsEvaluateForHovers = None,
      supportsStepBack = None, supportsDataBreakpoints = None,
      supportsCompletionsRequest = None, completionTriggerCharacters = None,
      supportsCancelRequest = None, supportsBreakpointLocationsRequest = None,
      supportsStepInTargetsRequest = None, supportsExceptionFilterOptions = None,
      exceptionBreakpointFilters = None, supportsExceptionInfoRequest = None,
      supportsSetVariable = None, supportsSetExpression = None,
      supportsDisassembleRequest = None, supportsSteppingGranularity = None,
      supportsInstructionBreakpoints = None\<rparr>"

definition exception_filters :: "exception_filter list" where
  "exception_filters =
    [\<lparr>filter' = ''exceptions'', label = ''All Exceptions'',
      description = ''Break when errors are thrown or when a function exits as a result of an error being thrown.'',
      default' = False, supportsCondition = False,
      conditionDescription = ''Enter the exception's name''\<rparr>,
     \<lparr>filter' = ''caughtExceptions'', label = ''Caught Exceptions'',
      description = ''Break when errors are thrown or when a function exits as a result of an error being thrown and that error is caught.'',
      default' = False, supportsCondition = False,
      conditionDescription = ''Enter the exception's name''\<rparr>,
     \<lparr>filter' = ''uncaughtExceptions'', label = ''Uncaught Exceptions'',
      description = ''Break when errors are thrown or when a function exits as a result of an error being thrown and that error is not caught.'',
      default' = False, supportsCondition = False,
      conditionDescription = ''Enter the exception's name''\<rparr>]"

text \<open>
  \<^verbatim>\<open>response.body = response.body || {}\<close> keeps a body that is already there; the
  assignments that follow overwrite the fields below.
\<close>

definition initialize_body :: "response_body option \<Rightarrow> capabilities" where
  "initialize_body b =
     (case b of Some (CapabilitiesBody c) \<Rightarrow> c | _ \<Rightarrow> no_capabilities)
       \<lparr>supportsConfigurationDoneRequest := Some True,
        supportsEvaluateForHovers := Some True,
        supportsStepBack := Some False,
        supportsDataBreakpoints := Some False,
        supportsCompletionsRequest := Some True,
        completionTriggerCharacters := Some [''.'', ''[''],
        supportsCancelRequest := Some False,
        supportsBreakpointLocationsRequest := Some True,
        supportsStepInTargetsRequest := Some False,
        supportsExceptionFilterOptions := Some True,
        exceptionBreakpointFilters := Some exception_filters,
        supportsExceptionInfoRequest := Some True,
        supportsSetVariable := Some True,
        supportsSetExpression := Some True,
        supportsDisassembleRequest := Some False,
        supportsSteppingGranularity := Some False,
        supportsInstructionBreakpoints := Some False\<rparr>"

definition initializeRequest :: "response \<Rightarrow> initialize_args \<Rightarrow> unit action" where
  "initializeRequest response args =
     and_then (sendResponse (response\<lparr>body := Some (CapabilitiesBody (initialize_body (body response)))\<rparr>))
       (\<lambda>u. sendEvent InitializedEvent)"

section \<open>Attach and the socket handlers\<close>

record attach_args =
  thingworxDomain :: string
  useSSL_arg :: bool
  thingworxAppKey :: string
  thingworxPort :: int

text \<open>\<^verbatim>\<open>n | 0\<close>: the number as a signed 32-bit integer.\<close>

definition to_int32 :: "int \<Rightarrow> int" where
  "to_int32 n = (n + 2 ^ 31) mod 2 ^ 32 - 2 ^ 31"

definition unable_to_process :: message where
  "unable_to_process = \<lparr>msg_id = 0, format = ''Unable to process request'', showUser = True\<rparr>"

definition update_socket :: "nat \<Rightarrow> (WebSocket \<Rightarrow> WebSocket) \<Rightarrow> unit action" where
  "update_socket a f s = (Ret (), s\<lparr>sockets := (sockets s)(a := map_option f (sockets s a))\<rparr>)"

definition close_socket :: "nat \<Rightarrow> unit action" where
  "close_socket a = update_socket a (\<lambda>w. w\<lparr>closed := True\<rparr>)"

text \<open>\<^verbatim>\<open>this._websocket?.close()\<close>\<close>

definition close_this_websocket :: "unit action" where
  "close_this_websocket s =
     (case websocket s of None \<Rightarrow> ret () s | Some a \<Rightarrow> close_socket a s)"

text \<open>
  \<^verbatim>\<open>attachRequest\<close> stores the connection details, creates the socket and installs its
  three handlers; it sends nothing itself. The constructor of the socket is taken to
  accept the address.
\<close>

definition attachRequest :: "response \<Rightarrow> attach_args \<Rightarrow> unit action" where
  "attachRequest response args s =
     (let protocol = (if useSSL_arg args then ''wss'' else ''ws'');
          a = next_socket s;
          w = \<lparr>ws_url = protocol @ ''://'' @ thingworxDomain args @ '':''
                      @ int_to_string (to_int32 (thingworxPort args))
                      @ ''/Thingworx/ThingworxDebugger'',
               onmessage = HandshakeHandler response,
               onopen = AuthenticateHandler (thingworxAppKey args),
               onerror = AttachErrorHandler response,
               closed = False, sent = []\<rparr>
      in (Ret (),
          s\<lparr>domain := Some (thingworxDomain args),
            port := Some (int_to_string (thingworxPort args)),
            useSSL := Some (useSSL_arg args),
            appKey := Some (thingworxAppKey args),
            websocket := Some a,
            sockets := (sockets s)(a \<mapsto> w),
            next_socket := Suc a\<rparr>))"

text \<open>
  A frame arrives as text; the model is given what \<^verbatim>\<open>JSON.parse\<close> makes of the text:
  a value, or \<open>None\<close> when the text is not JSON and the parser throws.
\<close>

type_synonym frame = "jsval option"

definition JSON_parse :: "frame \<Rightarrow> js_error + jsval" where
  "JSON_parse d = (case d of None \<Rightarrow> Inl SyntaxError | Some v \<Rightarrow> Inr v)"

text \<open>
  The handshake handler, \<^verbatim>\<open>websocket.onmessage\<close> as \<^verbatim>\<open>attachRequest\<close> sets it. \<open>a\<close> is
  the socket the closure captured, \<open>reply\<close> what the target answers to
  \<^verbatim>\<open>connectDebugger\<close>. The promise \<^verbatim>\<open>invokeService\<close> returns is dropped: the call is not
  awaited.
\<close>

definition attach_onmessage :: "nat \<Rightarrow> response \<Rightarrow> frame \<Rightarrow> http_reply \<Rightarrow> unit action" where
  "attach_onmessage a response e reply =
     try_catch
       (and_then (lift (JSON_parse e)) (\<lambda>socketResponse.
        and_then (lift (get_prop socketResponse ''authenticated'')) (\<lambda>authenticated.
        and_then
          (if truthy authenticated then
             try_catch
               (and_then (invokeService ''connectDebugger'' [] reply) (\<lambda>p. sendResponse response))
               (\<lambda>e. and_then close_this_websocket (\<lambda>u. sendErrorResponse response unable_to_process))
           else ret ())
          (\<lambda>u. and_then (update_socket a (\<lambda>w. w\<lparr>onmessage := EventHandler\<rparr>))
            (\<lambda>u. update_socket a (\<lambda>w. w\<lparr>onerror := IgnoreErrorHandler\<rparr>))))))
       (\<lambda>e. and_then (close_socket a)
         (\<lambda>u. and_then (\<lambda>s. (Ret (), s\<lparr>websocket := None\<rparr>))
         (\<lambda>u. sendErrorResponse response unable_to_process)))"

definition attach_onopen :: "nat \<Rightarrow> string \<Rightarrow> unit action" where
  "attach_onopen a key = update_socket a (\<lambda>w. w\<lparr>sent := sent w @ [JObj [(''appKey'', JStr key)]]\<rparr>)"

definition attach_onerror :: "response \<Rightarrow> string \<Rightarrow> unit action" where
  "attach_onerror response error_message =
     sendErrorResponse response \<lparr>msg_id = 0, format = error_message, showUser = True\<rparr>"

definition disconnectRequest :: "response \<Rightarrow> http_reply \<Rightarrow> unit action" where
  "disconnectRequest response reply =
     try_catch
       (and_then (invokeService ''disconnectDebugger'' [] reply) (\<lambda>p. close_this_websocket))
       (\<lambda>e. sendErrorResponse response
              \<lparr>msg_id = 0, format = ''Unable to disconnect'', showUser = True\<rparr>)"

section \<open>Events pushed by the target\<close>

definition newline :: string where
  "newline = [CHR 0x0A]"

text \<open>\<^verbatim>\<open>v + '...'\<close> with a string on the right: the left operand is converted to a string.\<close>

definition plus_string :: "jsval \<Rightarrow> string \<Rightarrow> js_error + string" where
  "plus_string v t = (case ToString v of Inl e \<Rightarrow> Inl e | Inr r \<Rightarrow> Inr (r @ t))"

text \<open>
  \<^verbatim>\<open>_didRecieveMessageWithEvent\<close>. \<^verbatim>\<open>message\<close> is declared without a value and stays
  \<^verbatim>\<open>undefined\<close> when the parser throws; the \<^verbatim>\<open>switch\<close> compares with \<^verbatim>\<open>===\<close>.
\<close>

definition didRecieveMessageWithEvent :: "frame \<Rightarrow> unit action" where
  "didRecieveMessageWithEvent event =
     and_then (try_catch (lift (JSON_parse event)) (\<lambda>e. ret JUndefined)) (\<lambda>message.
     and_then (lift (get_prop message ''name'')) (\<lambda>name.
       if name = JStr ''suspended'' then
         and_then (lift (get_prop message ''reason'')) (\<lambda>reason.
         and_then (lift (get_prop message ''threadID'')) (\<lambda>threadID.
         and_then (lift (get_prop message ''exception'')) (\<lambda>exception.
         sendEvent (StoppedEvent reason threadID exception))))
       else if name = JStr ''resumed'' then
         and_then (lift (get_prop message ''threadID'')) (\<lambda>threadID.
         sendEvent (ContinuedEvent threadID False))
       else if name = JStr ''log'' then
         and_then (lift (get_prop message ''body'')) (\<lambda>b.
         and_then (lift (plus_string b newline)) (\<lambda>text.
         and_then (lift (get_prop message ''level'')) (\<lambda>level.
         sendEvent (LogOutputEvent text level))))
       else ret ()))"

text \<open>The socket runs whichever handler is installed when a frame arrives.\<close>

definition deliver_message :: "nat \<Rightarrow> frame \<Rightarrow> http_reply \<Rightarrow> unit action" where
  "deliver_message a e reply s =
     (case sockets s a of
        None \<Rightarrow> ret () s
      | Some w \<Rightarrow>
          (case onmessage w of
             NoMessageHandler \<Rightarrow> ret () s
           | HandshakeHandler response \<Rightarrow> attach_onmessage a response e reply s
           | EventHandler \<Rightarrow> didRecieveMessageWithEvent e s))"

section \<open>Requests the adapter rejects\<close>

record launch_args =
  trace_arg :: "bool option"

definition unsupported_operation :: message where
  "unsupported_operation = \<lparr>msg_id = 0, format = ''Unsupported operation'', showUser = True\<rparr>"

definition launchRequest :: "response \<Rightarrow> launch_args \<Rightarrow> unit action" where
  "launchRequest response args =
     and_then
       (sendErrorResponse response
          \<lparr>msg_id = 0, format = ''Launch request not supported'', showUser = True\<rparr>)
       (\<lambda>u. emit (LoggerSetup (trace_arg args = Some True)))"

definition reverseContinueRequest :: "response \<Rightarrow> unit action" where
  "reverseContinueRequest response = sendErrorResponse response unsupported_operation"

definition stepBackRequest :: "response \<Rightarrow> unit action" where
  "stepBackRequest response = sendErrorResponse response unsupported_operation"

definition stepInTargetsRequest :: "response \<Rightarrow> unit action" where
  "stepInTargetsRequest response = sendErrorResponse response unsupported_operation"

definition setExpressionRequest :: "response \<Rightarrow> unit action" where
  "setExpressionRequest response = sendErrorResponse response unsupported_operation"

definition dataBreakpointInfoRequest :: "response \<Rightarrow> unit action" where
  "dataBreakpointInfoRequest response = sendErrorResponse response unsupported_operation"

definition setDataBreakpointsRequest :: "response \<Rightarrow> unit action" where
  "setDataBreakpointsRequest response = sendErrorResponse response unsupported_operation"

definition disassembleRequest :: "response \<Rightarrow> unit action" where
  "disassembleRequest response = sendErrorResponse response unsupported_operation"

definition setInstructionBreakpointsRequest :: "response \<Rightarrow> unit action" where
  "setInstructionBreakpointsRequest response = sendErrorResponse response unsupported_operation"

definition customRequest :: "string \<Rightarrow> response \<Rightarrow> unit action" where
  "customRequest command response = sendErrorResponse response unsupported_operation"

section \<open>Breakpoints and path normalization\<close>

text \<open>
  What the handlers take from the machine they run on: \<^verbatim>\<open>process.platform\<close>, the
  functions \<^verbatim>\<open>path.normalize\<close> and \<^verbatim>\<open>path.sep\<close> of the platform's path module, and
  \<^verbatim>\<open>String.prototype.toUpperCase\<close> (applied to strings of one character only).
\<close>

record host =
  platform :: string
  toUpperCase :: "string \<Rightarrow> string"
  path_normalize :: "string \<Rightarrow> string"
  path_sep :: char

definition backslash :: char where
  "backslash = CHR 0x5C"

text \<open>\<^verbatim>\<open>t.replace(/\\/g, '/')\<close>\<close>

definition replace_backslashes :: "string \<Rightarrow> string" where
  "replace_backslashes t = map (\<lambda>c. if c = backslash then CHR ''/'' else c) t"

text \<open>
  The lines both \<^verbatim>\<open>setBreakPointsRequest\<close> and \<^verbatim>\<open>breakpointLocationsRequest\<close> apply to
  \<^verbatim>\<open>args.source.path\<close>:
  \<^verbatim>\<open>if (process.platform == 'win32') path = path[0].toUpperCase() + path.substring(1).replace(/\\/g, '/')\<close>.
  The path may be undefined (\<open>None\<close>); indexing \<^verbatim>\<open>undefined\<close> raises a TypeError, and so
  does \<^verbatim>\<open>toUpperCase\<close> on the undefined first character of the empty string.
\<close>

definition normalize_source_path :: "host \<Rightarrow> string option \<Rightarrow> js_error + string option" where
  "normalize_source_path h p =
     (if platform h = ''win32'' then
        (case p of
           None \<Rightarrow> Inl TypeError
         | Some [] \<Rightarrow> Inl TypeError
         | Some (c # cs) \<Rightarrow> Inr (Some (toUpperCase h [c] @ replace_backslashes cs)))
      else Inr p)"

definition string_value :: "string option \<Rightarrow> jsval" where
  "string_value p = (case p of None \<Rightarrow> JUndefined | Some t \<Rightarrow> JStr t)"

definition number_value :: "int option \<Rightarrow> jsval" where
  "number_value n = (case n of None \<Rightarrow> JUndefined | Some i \<Rightarrow> JNum i)"

record set_breakpoints_args =
  sb_source :: source
  sb_breakpoints :: "jsval list option"

definition breakpoint_of_row :: "source \<Rightarrow> jsval \<Rightarrow> breakpoint list \<Rightarrow> breakpoint list action" where
  "breakpoint_of_row src row bps =
     and_then (lift (get_prop row ''verified'')) (\<lambda>verified.
     and_then (lift (get_prop row ''column'')) (\<lambda>col.
     and_then (lift (get_prop row ''endColumn'')) (\<lambda>endColumn.
     and_then (lift (get_prop row ''endLine'')) (\<lambda>endLine.
     and_then (lift (get_prop row ''sequenceID'')) (\<lambda>sequenceID.
     and_then (lift (get_prop row ''line'')) (\<lambda>line.
     and_then (lift (get_prop row ''message'')) (\<lambda>msg.
     ret (bps @ [\<lparr>bp_verified = verified, bp_column = col, bp_endColumn = endColumn,
                   bp_endLine = endLine, bp_id = sequenceID, bp_line = line,
                   bp_message = msg, bp_source = src\<rparr>]))))))))"

text \<open>
  What every \<^verbatim>\<open>catch\<close> of a mapped request does:
  \<^verbatim>\<open>this.sendErrorResponse(response, {id: 0, format: text, showUser: true})\<close>.
\<close>

definition process_request_failed :: "response \<Rightarrow> string \<Rightarrow> unit action" where
  "process_request_failed response text =
     sendErrorResponse response \<lparr>msg_id = 0, format = text, showUser = True\<rparr>"

definition setBreakPointsRequest ::
    "host \<Rightarrow> response \<Rightarrow> set_breakpoints_args \<Rightarrow> http_reply \<Rightarrow> unit action" where
  "setBreakPointsRequest h response args reply =
     try_catch
       (and_then (lift (normalize_source_path h (src_path (sb_source args)))) (\<lambda>path.
        and_then (invokeService ''setBreakpointsForFile''
                    [(''path'', string_value path),
                     (''breakpoints'',
                        JObj [(''breakpoints'',
                               JArr (case sb_breakpoints args of None \<Rightarrow> [] | Some bs \<Rightarrow> bs))])]
                    reply) (\<lambda>p.
        and_then (await p) (\<lambda>result.
        and_then (lift (get_prop result ''rows'')) (\<lambda>rows.
        and_then (lift (iterate rows)) (\<lambda>rs.
        and_then (for_each rs (breakpoint_of_row (sb_source args))
                    (case body response of Some (BreakpointsBody bps) \<Rightarrow> bps | _ \<Rightarrow> [])) (\<lambda>bps.
        sendResponse (response\<lparr>body := Some (BreakpointsBody bps)\<rparr>))))))))
       (\<lambda>e. process_request_failed response ''Unable to process request'')"

record breakpoint_locations_args =
  bl_source :: source
  bl_line :: int
  bl_column :: "int option"
  bl_endLine :: "int option"
  bl_endColumn :: "int option"

definition location_of_row :: "jsval \<Rightarrow> location list \<Rightarrow> location list action" where
  "location_of_row row locs =
     and_then (lift (get_prop row ''line'')) (\<lambda>line.
     and_then (lift (get_prop row ''column'')) (\<lambda>col.
     and_then (lift (get_prop row ''endLine'')) (\<lambda>endLine.
     and_then (lift (get_prop row ''endColumn'')) (\<lambda>endColumn.
     ret (locs @ [\<lparr>loc_line = line, loc_column = col, loc_endLine = endLine,
                    loc_endColumn = endColumn\<rparr>])))))"

definition breakpointLocationsRequest ::
    "host \<Rightarrow> response \<Rightarrow> breakpoint_locations_args \<Rightarrow> http_reply \<Rightarrow> unit action" where
  "breakpointLocationsRequest h response args reply =
     (if truthy (string_value (src_path (bl_source args))) then
        try_catch
          (and_then (lift (normalize_source_path h (src_path (bl_source args)))) (\<lambda>path.
           and_then (emit (ConsoleLog (''Getting breakpoints at path '' @ (case path of None \<Rightarrow> ''undefined'' | Some t \<Rightarrow> t)))) (\<lambda>u.
           and_then (invokeService ''getBreakpointLocationsInFile''
                       [(''path'', string_value path),
                        (''line'', JNum (bl_line args)),
                        (''column'', number_value (bl_column args)),
                        (''endLine'', number_value (bl_endLine args)),
                        (''endColumn'', number_value (bl_endColumn args))]
                       reply) (\<lambda>p.
           and_then (await p) (\<lambda>locations.
           and_then (lift (get_prop locations ''rows'')) (\<lambda>rows.
           and_then (lift (iterate rows)) (\<lambda>rs.
           and_then (for_each rs location_of_row
                       (case body response of Some (BreakpointLocationsBody ls) \<Rightarrow> ls | _ \<Rightarrow> [])) (\<lambda>ls.
           sendResponse (response\<lparr>body := Some (BreakpointLocationsBody ls)\<rparr>)))))))))
          (\<lambda>e. process_request_failed response ''Unable to process request'')
      else sendResponse (response\<lparr>body := Some (BreakpointLocationsBody [])\<rparr>))"

section \<open>Stack frames and the threads they belong to\<close>

text \<open>\<^verbatim>\<open>t.split(sep)\<close> with a separator of one character; the result is never empty.\<close>

fun split :: "char \<Rightarrow> string \<Rightarrow> string list" where
  "split sep [] = [[]]"
| "split sep (c # cs) =
     (if c = sep then [] # split sep cs
      else (case split sep cs of [] \<Rightarrow> [[c]] | r # rs \<Rightarrow> (c # r) # rs))"

text \<open>
  \<^verbatim>\<open>this._scopeThreadMapping[k] = v\<close> on the plain object that holds the mapping. The key
  is converted to a string, which may throw; the key \<^verbatim>\<open>__proto__\<close> names the inherited
  accessor, whose setter ignores a number, so that assignment stores nothing.
\<close>

definition set_scopeThreadMapping :: "jsval \<Rightarrow> int \<Rightarrow> unit action" where
  "set_scopeThreadMapping k v =
     and_then (lift (ToString k)) (\<lambda>key s.
       (Ret (),
        if key = ''__proto__'' then s
        else s\<lparr>scopeThreadMapping := (scopeThreadMapping s)(key \<mapsto> v)\<rparr>))"

text \<open>
  \<^verbatim>\<open>this._scopeThreadMapping[frameId]\<close> for a frame id of the frontend, which is a number
  or undefined: neither prints as the name of an inherited property, so a key that was
  never stored reads as \<^verbatim>\<open>undefined\<close>.
\<close>

definition frame_key :: "int option \<Rightarrow> string" where
  "frame_key f = (case f of None \<Rightarrow> ''undefined'' | Some n \<Rightarrow> int_to_string n)"

definition get_scopeThreadMapping :: "int option \<Rightarrow> session \<Rightarrow> jsval" where
  "get_scopeThreadMapping f s = number_value (scopeThreadMapping s (frame_key f))"

text \<open>\<^verbatim>\<open>path.normalize\<close> accepts a string only and throws a TypeError on anything else.\<close>

definition normalize_arg :: "host \<Rightarrow> jsval \<Rightarrow> js_error + string" where
  "normalize_arg h v = (case v of JStr t \<Rightarrow> Inr (path_normalize h t) | _ \<Rightarrow> Inl TypeError)"

record stack_trace_args =
  st_threadId :: int

definition stackframe_of_row :: "host \<Rightarrow> int \<Rightarrow> jsval \<Rightarrow> stackframe list \<Rightarrow> stackframe list action" where
  "stackframe_of_row h threadId row frames =
     and_then (lift (get_prop row ''source'')) (\<lambda>src.
     and_then (lift (normalize_arg h src)) (\<lambda>filename.
     and_then (lift (get_prop row ''id'')) (\<lambda>rid.
     and_then (lift (get_prop row ''name'')) (\<lambda>name.
     and_then (lift (get_prop row ''line'')) (\<lambda>line.
     and_then (lift (get_prop row ''column'')) (\<lambda>col.
     and_then (set_scopeThreadMapping rid threadId) (\<lambda>u.
     ret (frames @ [\<lparr>sf_id = rid, sf_name = name,
                      sf_source_name = last (split (path_sep h) filename),
                      sf_source_path = filename, sf_line = line, sf_column = col\<rparr>]))))))))"

definition stackTraceRequest ::
    "host \<Rightarrow> response \<Rightarrow> stack_trace_args \<Rightarrow> http_reply \<Rightarrow> unit action" where
  "stackTraceRequest h response args reply =
     try_catch
       (and_then (invokeService ''getStackTraceInThread'' [(''threadID'', JNum (st_threadId args))] reply) (\<lambda>p.
        and_then (await p) (\<lambda>frames.
        and_then (lift (get_prop frames ''rows'')) (\<lambda>rows.
        and_then (lift (iterate rows)) (\<lambda>rs.
        and_then (for_each rs (stackframe_of_row h (st_threadId args))
                    (case body response of Some (StackTraceBody fs n) \<Rightarrow> fs | _ \<Rightarrow> [])) (\<lambda>fs.
        sendResponse (response\<lparr>body := Some (StackTraceBody fs (Some (length rs)))\<rparr>)))))))
       (\<lambda>e. process_request_failed response ''Unable to process stack trace request'')"

record scopes_args =
  sc_frameId :: int

definition scope_of_row :: "jsval \<Rightarrow> scope list \<Rightarrow> scope list action" where
  "scope_of_row scopeRow scopes =
     and_then (lift (get_prop scopeRow ''name'')) (\<lambda>name.
     and_then (lift (get_prop scopeRow ''variablesReference'')) (\<lambda>reference.
     ret (scopes @ [\<lparr>sc_name = name, sc_variablesReference = reference, sc_expensive = False\<rparr>])))"

definition scopesRequest :: "response \<Rightarrow> scopes_args \<Rightarrow> http_reply \<Rightarrow> unit action" where
  "scopesRequest response args reply =
     try_catch
       (and_then (\<lambda>s. ret (get_scopeThreadMapping (Some (sc_frameId args)) s) s) (\<lambda>threadID.
        and_then (invokeService ''getScopesInThread''
                    [(''threadID'', threadID), (''frameID'', JNum (sc_frameId args))] reply) (\<lambda>p.
        and_then (await p) (\<lambda>scopes.
        and_then (lift (get_prop scopes ''rows'')) (\<lambda>rows.
        and_then (lift (iterate rows)) (\<lambda>rs.
        and_then (for_each rs scope_of_row
                    (case body response of Some (ScopesBody scs) \<Rightarrow> scs | _ \<Rightarrow> [])) (\<lambda>scs.
        sendResponse (response\<lparr>body := Some (ScopesBody scs)\<rparr>))))))))
       (\<lambda>e. process_request_failed response ''Unable to process scopes request.'')"

record evaluate_args =
  ev_expression :: string
  ev_frameId :: "int option"

text \<open>\<^verbatim>\<open>v[0]\<close>: the first element of an array, the first character of a string.\<close>

fun index0 :: "jsval \<Rightarrow> js_error + jsval" where
  "index0 JUndefined = Inl TypeError"
| "index0 JNull = Inl TypeError"
| "index0 (JArr xs) = Inr (case xs of [] \<Rightarrow> JUndefined | x # r \<Rightarrow> x)"
| "index0 (JStr t) = Inr (case t of [] \<Rightarrow> JUndefined | c # r \<Rightarrow> JStr [c])"
| "index0 (JObj kvs) = Inr (case map_of kvs ''0'' of None \<Rightarrow> JUndefined | Some v \<Rightarrow> v)"
| "index0 v = Inr JUndefined"

definition evaluateRequest :: "response \<Rightarrow> evaluate_args \<Rightarrow> http_reply \<Rightarrow> unit action" where
  "evaluateRequest response args reply =
     (let serviceName = (if ev_frameId args = None then ''evaluateGlobally'' else ''evaluate'') in
      try_catch
        (and_then (\<lambda>s. ret (get_scopeThreadMapping (ev_frameId args) s) s) (\<lambda>threadID.
         and_then (invokeService serviceName
                     [(''expression'', JStr (ev_expression args)),
                      (''threadID'', threadID),
                      (''frameID'', number_value (ev_frameId args))] reply) (\<lambda>p.
         and_then (await p) (\<lambda>result.
         and_then (lift (get_prop result ''rows'')) (\<lambda>rows.
         and_then (lift (index0 rows)) (\<lambda>row.
         and_then (lift (get_prop row ''value'')) (\<lambda>val.
         and_then (lift (get_prop row ''type'')) (\<lambda>ty.
         and_then (lift (get_prop row ''variablesReference'')) (\<lambda>reference.
         and_then (lift (get_prop row ''presentationHint'')) (\<lambda>hint.
         and_then (lift (get_prop row ''indexedVariables'')) (\<lambda>indexed.
         and_then (lift (get_prop row ''namedVariables'')) (\<lambda>named.
         sendResponse (response\<lparr>body := Some (EvaluateBody
           \<lparr>ev_result = val, ev_type = ty, ev_variablesReference = reference,
            ev_presentationHint = hint, ev_indexedVariables = indexed,
            ev_namedVariables = named\<rparr>)\<rparr>)))))))))))))
        (\<lambda>e. process_request_failed response ''Unable to process evaluate request''))"

section \<open>Execution control\<close>

record thread_args =
  threadId :: int
  singleThread :: "bool option"

definition pauseRequest :: "response \<Rightarrow> thread_args \<Rightarrow> http_reply \<Rightarrow> unit action" where
  "pauseRequest response args reply =
     try_catch
       (and_then (invokeService ''suspendThread'' [(''threadID'', JNum (threadId args))] reply) (\<lambda>p.
        and_then (await p) (\<lambda>r. sendResponse response)))
       (\<lambda>e. process_request_failed response ''Unable to process pause request.'')"

text \<open>
  \<^verbatim>\<open>continueRequest\<close> assigns \<^verbatim>\<open>response.body\<close> and returns; the action returns the
  response object as the handler leaves it.
\<close>

definition continueRequest :: "response \<Rightarrow> thread_args \<Rightarrow> http_reply \<Rightarrow> response action" where
  "continueRequest response args reply =
     try_catch
       (if singleThread args = Some True then
          and_then (invokeService ''resumeThread'' [(''threadID'', JNum (threadId args))] reply) (\<lambda>p.
          and_then (await p) (\<lambda>r. ret (response\<lparr>body := Some (ContinueBody False)\<rparr>)))
        else
          and_then (invokeService ''resumeAllThreads'' [] reply) (\<lambda>p.
          and_then (await p) (\<lambda>r. ret (response\<lparr>body := Some (ContinueBody True)\<rparr>))))
       (\<lambda>e. and_then (process_request_failed response ''Unable to process continue request'')
              (\<lambda>u. ret response))"

definition nextRequest :: "response \<Rightarrow> thread_args \<Rightarrow> http_reply \<Rightarrow> unit action" where
  "nextRequest response args reply =
     try_catch
       (and_then
          (if singleThread args = Some True then
             and_then (invokeService ''stepOverThread'' [(''threadID'', JNum (threadId args))] reply) await
           else
             and_then (invokeService ''stepOverThread'' [(''threadID'', JNum (threadId args))] reply) await)
          (\<lambda>r. sendResponse response))
       (\<lambda>e. process_request_failed response ''Unable to process step over request'')"

record cancel_args =
  requestId :: "int option"
  progressId :: "string option"

definition cancelRequest :: "response \<Rightarrow> cancel_args \<Rightarrow> unit action" where
  "cancelRequest response args s =
     (Ret (),
      case requestId args of
        None \<Rightarrow> s
      | Some n \<Rightarrow>
          if truthy (JNum n) then s\<lparr>cancellationTokens := (cancellationTokens s)(n \<mapsto> True)\<rparr>
          else s)"

section \<open>The other requests that are mapped to a remote call or answered locally\<close>

text \<open>
  \<^verbatim>\<open>configurationDoneRequest\<close> calls the handler of the base class, which sends the
  response, and notifies \<^verbatim>\<open>_configurationDone\<close>, which nothing waits for.
\<close>

definition configurationDoneRequest :: "response \<Rightarrow> unit action" where
  "configurationDoneRequest response = sendResponse response"

text \<open>The filter ids of the request's \<^verbatim>\<open>filterOptions\<close>, when it has any.\<close>

record set_exception_breakpoints_args =
  filterOptions :: "string list option"

fun exception_switch :: "bool \<times> bool \<times> bool \<Rightarrow> string \<Rightarrow> bool \<times> bool \<times> bool" where
  "exception_switch (exceptions, caughtExceptions, uncaughtExceptions) filterId =
     (if filterId = ''exceptions'' then (True, caughtExceptions, uncaughtExceptions)
      else if filterId = ''caughtExceptions'' then (exceptions, True, uncaughtExceptions)
      else if filterId = ''uncaughtExceptions'' then (exceptions, caughtExceptions, True)
      else (exceptions, caughtExceptions, uncaughtExceptions))"

definition setExceptionBreakPointsRequest ::
    "response \<Rightarrow> set_exception_breakpoints_args \<Rightarrow> http_reply \<Rightarrow> unit action" where
  "setExceptionBreakPointsRequest response args reply =
     (case foldl exception_switch (False, False, False)
             (case filterOptions args of None \<Rightarrow> [] | Some ids \<Rightarrow> ids) of
        (exceptions, caughtExceptions, uncaughtExceptions) \<Rightarrow>
          try_catch
            (and_then (invokeService ''setBreakOnExceptions''
                         [(''breaks'', JBool exceptions),
                          (''caughtExceptions'', JBool caughtExceptions),
                          (''uncaughtExceptions'', JBool uncaughtExceptions)] reply) (\<lambda>p.
             and_then (await p) (\<lambda>r. sendResponse response)))
            (\<lambda>e. process_request_failed response ''Unable to process request''))"

record exception_info_args =
  ei_threadId :: int

definition exceptionInfoRequest :: "response \<Rightarrow> exception_info_args \<Rightarrow> http_reply \<Rightarrow> unit action" where
  "exceptionInfoRequest response args reply =
     try_catch
       (and_then (invokeService ''getExceptionDetails'' [(''threadID'', JNum (ei_threadId args))] reply) (\<lambda>p.
        and_then (await p) (\<lambda>details.
        sendResponse (response\<lparr>body := Some (ExceptionInfoBody details)\<rparr>))))
       (\<lambda>e. process_request_failed response ''Unable to process exception info request'')"

text \<open>\<^verbatim>\<open>v.toFixed()\<close>: only a number has the method.\<close>

definition toFixed :: "jsval \<Rightarrow> js_error + string" where
  "toFixed v = (case v of JNum n \<Rightarrow> Inr (int_to_string n) | _ \<Rightarrow> Inl TypeError)"

definition thread_of_row :: "jsval \<Rightarrow> thread list \<Rightarrow> thread list action" where
  "thread_of_row row threads =
     and_then (lift (get_prop row ''ID'')) (\<lambda>ident.
     and_then (lift (toFixed ident)) (\<lambda>t.
     ret (threads @ [\<lparr>th_id = ident, th_name = ''Thread '' @ t\<rparr>])))"

definition threadsRequest :: "response \<Rightarrow> http_reply \<Rightarrow> unit action" where
  "threadsRequest response reply =
     try_catch
       (and_then (invokeService ''getThreads'' [] reply) (\<lambda>p.
        and_then (await p) (\<lambda>threads.
        and_then (lift (get_prop threads ''rows'')) (\<lambda>rows.
        and_then (lift (iterate rows)) (\<lambda>rs.
        and_then (for_each rs thread_of_row
                    (case body response of Some (ThreadsBody ths) \<Rightarrow> ths | _ \<Rightarrow> [])) (\<lambda>ths.
        sendResponse (response\<lparr>body := Some (ThreadsBody ths)\<rparr>)))))))
       (\<lambda>e. process_request_failed response ''Unable to process request'')"

record variables_args =
  va_variablesReference :: int
  va_filter :: "string option"
  va_start :: "int option"
  va_count :: "int option"

definition variable_of_row :: "jsval \<Rightarrow> jsval list \<Rightarrow> jsval list action" where
  "variable_of_row row variables = ret (variables @ [row])"

definition variablesRequest :: "response \<Rightarrow> variables_args \<Rightarrow> http_reply \<Rightarrow> unit action" where
  "variablesRequest response args reply =
     try_catch
       (and_then (invokeService ''getVariableContents''
                    [(''reference'', JNum (va_variablesReference args)),
                     (''filter'', string_value (va_filter args)),
                     (''start'', number_value (va_start args)),
                     (''count'', number_value (va_count args))] reply) (\<lambda>p.
        and_then (await p) (\<lambda>variables.
        and_then (lift (get_prop variables ''rows'')) (\<lambda>rows.
        and_then (lift (iterate rows)) (\<lambda>rs.
        and_then (for_each rs variable_of_row
                    (case body response of Some (VariablesBody vs) \<Rightarrow> vs | _ \<Rightarrow> [])) (\<lambda>vs.
        sendResponse (response\<lparr>body := Some (VariablesBody vs)\<rparr>)))))))
       (\<lambda>e. process_request_failed response ''Unable to process variables request'')"

record set_variable_args =
  sv_reference_arg :: int
  sv_name_arg :: string
  sv_value_arg :: string

text \<open>\<^verbatim>\<open>result.rows[0].k\<close>, which \<^verbatim>\<open>setVariableRequest\<close> evaluates once for each field.\<close>

definition first_row_prop :: "jsval \<Rightarrow> string \<Rightarrow> js_error + jsval" where
  "first_row_prop result k =
     (case get_prop result ''rows'' of
        Inl e \<Rightarrow> Inl e
      | Inr rows \<Rightarrow> (case index0 rows of Inl e \<Rightarrow> Inl e | Inr row \<Rightarrow> get_prop row k))"

definition setVariableRequest :: "response \<Rightarrow> set_variable_args \<Rightarrow> http_reply \<Rightarrow> unit action" where
  "setVariableRequest response args reply =
     try_catch
       (and_then (invokeService ''setVariable''
                    [(''reference'', JNum (sv_reference_arg args)),
                     (''name'', JStr (sv_name_arg args)),
                     (''value'', JStr (sv_value_arg args))] reply) (\<lambda>p.
        and_then (await p) (\<lambda>result.
        and_then (lift (first_row_prop result ''value'')) (\<lambda>val.
        and_then (lift (first_row_prop result ''variablesReference'')) (\<lambda>reference.
        and_then (lift (first_row_prop result ''type'')) (\<lambda>ty.
        and_then (lift (first_row_prop result ''indexedVariables'')) (\<lambda>indexed.
        and_then (lift (first_row_prop result ''namedVariables'')) (\<lambda>named.
        sendResponse (response\<lparr>body := Some (SetVariableBody
          \<lparr>sv_value = val, sv_variablesReference = reference, sv_type = ty,
           sv_indexedVariables = indexed, sv_namedVariables = named\<rparr>)\<rparr>)))))))))
       (\<lambda>e. process_request_failed response ''Unable to process set variable request'')"

definition stepInRequest :: "response \<Rightarrow> thread_args \<Rightarrow> http_reply \<Rightarrow> unit action" where
  "stepInRequest response args reply =
     try_catch
       (and_then
          (if singleThread args = Some True then
             and_then (invokeService ''stepInThread'' [(''threadID'', JNum (threadId args))] reply) await
           else
             and_then (invokeService ''stepInThread'' [(''threadID'', JNum (threadId args))] reply) await)
          (\<lambda>r. sendResponse response))
       (\<lambda>e. process_request_failed response ''Unable to process step in request'')"

definition stepOutRequest :: "response \<Rightarrow> thread_args \<Rightarrow> http_reply \<Rightarrow> unit action" where
  "stepOutRequest response args reply =
     try_catch
       (and_then
          (if singleThread args = Some True then
             and_then (invokeService ''stepOutThread'' [(''threadID'', JNum (threadId args))] reply) await
           else
             and_then (invokeService ''stepOutThread'' [(''threadID'', JNum (threadId args))] reply) await)
          (\<lambda>r. sendResponse response))
       (\<lambda>e. process_request_failed response ''Unable to process step in request'')"

definition completionsRequest :: "response \<Rightarrow> unit action" where
  "completionsRequest response = sendResponse (response\<lparr>body := Some (CompletionsBody [])\<rparr>)"

section \<open>Requests and their handlers\<close>

text \<open>
  The frontend's requests, decoded, each with the arguments its handler reads. The
  framework calls the handler of the request's kind with a fresh response object; a
  command it does not know goes to \<^verbatim>\<open>customRequest\<close>.
\<close>

datatype request =
    Initialize initialize_args
  | ConfigurationDone
  | Attach attach_args
  | Disconnect
  | Launch launch_args
  | SetBreakpoints set_breakpoints_args
  | BreakpointLocations breakpoint_locations_args
  | SetExceptionBreakpoints set_exception_breakpoints_args
  | ExceptionInfo exception_info_args
  | Threads
  | StackTrace stack_trace_args
  | Scopes scopes_args
  | Variables variables_args
  | SetVariable set_variable_args
  | Evaluate evaluate_args
  | Completions
  | Pause thread_args
  | Continue thread_args
  | Next thread_args
  | StepIn thread_args
  | StepOut thread_args
  | Cancel cancel_args
  | ReverseContinue
  | StepBack
  | StepInTargets
  | SetExpression
  | DataBreakpointInfo
  | SetDataBreakpoints
  | Disassemble
  | SetInstructionBreakpoints
  | Custom string

fun handle :: "host \<Rightarrow> response \<Rightarrow> request \<Rightarrow> http_reply \<Rightarrow> unit action" where
  "handle h response (Initialize args) reply = initializeRequest response args"
| "handle h response ConfigurationDone reply = configurationDoneRequest response"
| "handle h response (SetExceptionBreakpoints args) reply =
     setExceptionBreakPointsRequest response args reply"
| "handle h response (ExceptionInfo args) reply = exceptionInfoRequest response args reply"
| "handle h response Threads reply = threadsRequest response reply"
| "handle h response (Variables args) reply = variablesRequest response args reply"
| "handle h response (SetVariable args) reply = setVariableRequest response args reply"
| "handle h response Completions reply = completionsRequest response"
| "handle h response (StepIn args) reply = stepInRequest response args reply"
| "handle h response (StepOut args) reply = stepOutRequest response args reply"
| "handle h response (Attach args) reply = attachRequest response args"
| "handle h response Disconnect reply = disconnectRequest response reply"
| "handle h response (Launch args) reply = launchRequest response args"
| "handle h response (SetBreakpoints args) reply = setBreakPointsRequest h response args reply"
| "handle h response (BreakpointLocations args) reply = breakpointLocationsRequest h response args reply"
| "handle h response (StackTrace args) reply = stackTraceRequest h response args reply"
| "handle h response (Scopes args) reply = scopesRequest response args reply"
| "handle h response (Evaluate args) reply = evaluateRequest response args reply"
| "handle h response (Pause args) reply = pauseRequest response args reply"
| "handle h response (Continue args) reply =
     and_then (continueRequest response args reply) (\<lambda>r. ret ())"
| "handle h response (Next args) reply = nextRequest response args reply"
| "handle h response (Cancel args) reply = cancelRequest response args"
| "handle h response ReverseContinue reply = reverseContinueRequest response"
| "handle h response StepBack reply = stepBackRequest response"
| "handle h response StepInTargets reply = stepInTargetsRequest response"
| "handle h response SetExpression reply = setExpressionRequest response"
| "handle h response DataBreakpointInfo reply = dataBreakpointInfoRequest response"
| "handle h response SetDataBreakpoints reply = setDataBreakpointsRequest response"
| "handle h response Disassemble reply = disassembleRequest response"
| "handle h response SetInstructionBreakpoints reply = setInstructionBreakpointsRequest response"
| "handle h response (Custom command) reply = customRequest command response"

text \<open>The requests of the rejected set.\<close>

fun rejected :: "request \<Rightarrow> bool" where
  "rejected (Launch args) = True"
| "rejected ReverseContinue = True"
| "rejected StepBack = True"
| "rejected StepInTargets = True"
| "rejected SetExpression = True"
| "rejected DataBreakpointInfo = True"
| "rejected SetDataBreakpoints = True"
| "rejected Disassemble = True"
| "rejected SetInstructionBreakpoints = True"
| "rejected (Custom command) = True"
| "rejected r = False"

text \<open>
  The requests whose handler itself is to answer. The answer to an attach request comes
  from the socket handlers; \<^verbatim>\<open>continueRequest\<close>, \<^verbatim>\<open>cancelRequest\<close> and
  \<^verbatim>\<open>disconnectRequest\<close> hold no call of \<^verbatim>\<open>sendResponse\<close>.
\<close>

fun answered_by_handler :: "request \<Rightarrow> bool" where
  "answered_by_handler (Attach args) = False"
| "answered_by_handler (Continue args) = False"
| "answered_by_handler (Cancel args) = False"
| "answered_by_handler Disconnect = False"
| "answered_by_handler r = True"

section \<open>Reading a trace\<close>

text \<open>The effects a step added to the trace of the session it started from.\<close>

definition new_effects :: "session \<Rightarrow> 'a res \<times> session \<Rightarrow> effect list" where
  "new_effects s r = drop (length (trace s)) (trace (snd r))"

fun is_response_to :: "nat \<Rightarrow> effect \<Rightarrow> bool" where
  "is_response_to n (SendResponse r) = (request_seq r = n)"
| "is_response_to n (SendErrorResponse k m) = (k = n)"
| "is_response_to n e = False"

text \<open>The terminal responses, success or error, a list of effects holds for request \<open>n\<close>.\<close>

definition responses_to :: "nat \<Rightarrow> effect list \<Rightarrow> effect list" where
  "responses_to n es = filter (is_response_to n) es"

fun is_remote_call :: "effect \<Rightarrow> bool" where
  "is_remote_call (InvokeService name args) = True"
| "is_remote_call e = False"

definition remote_calls :: "effect list \<Rightarrow> effect list" where
  "remote_calls es = filter is_remote_call es"

text \<open>
  Three properties of pieces of handler code, for reasoning about a handler step by step.
  A piece of code sends or throws when, from any session, it either returns having added
  exactly one response to request \<open>n\<close> to the trace, or throws having added nothing; it
  is never suspended. The body of a loop is harmless when it adds nothing to the trace
  and is never suspended. A request is handled by a run when no exception escapes the run
  and the run has added exactly one response to request \<open>n\<close>, or none if it made a remote
  call that never settles.
\<close>

definition sends_or_throws :: "nat \<Rightarrow> unit action \<Rightarrow> bool" where
  "sends_or_throws n m =
     (\<forall>s. case fst (m s) of
        Ret u \<Rightarrow> (\<exists>x. is_response_to n x \<and> trace (snd (m s)) = trace s @ [x])
      | Throw e \<Rightarrow> trace (snd (m s)) = trace s
      | Suspended \<Rightarrow> False)"

definition row_ok :: "('a \<Rightarrow> 'b \<Rightarrow> 'b action) \<Rightarrow> bool" where
  "row_ok f = (\<forall>x acc s. fst (f x acc s) \<noteq> Suspended \<and> trace (snd (f x acc s)) = trace s)"

definition handled :: "nat \<Rightarrow> http_reply \<Rightarrow> session \<Rightarrow> unit res \<times> session \<Rightarrow> bool" where
  "handled n reply s r =
     ((\<forall>e. fst r \<noteq> Throw e)
      \<and> (\<exists>ys. trace (snd r) = trace s @ ys
            \<and> length (responses_to n ys) =
                (if settle reply = NeverSettles \<and> remote_calls ys \<noteq> [] then 0 else 1)))"

section \<open>Example inputs\<close>

text \<open>
  \<^verbatim>\<open>toUpperCase\<close> on ASCII text, and two hosts for the examples below. Their
  \<^verbatim>\<open>path.normalize\<close> is the identity, as it is on a path that is already normal.
\<close>

definition ascii_toUpperCase :: "string \<Rightarrow> string" where
  "ascii_toUpperCase t =
     map (\<lambda>c. case map_of (zip ''abcdefghijklmnopqrstuvwxyz'' ''ABCDEFGHIJKLMNOPQRSTUVWXYZ'') c of
                None \<Rightarrow> c
              | Some u \<Rightarrow> u) t"


definition linux_host :: host where
  "linux_host =
     \<lparr>platform = ''linux'', toUpperCase = ascii_toUpperCase,
      path_normalize = (\<lambda>t. t), path_sep = CHR ''/''\<rparr>"

text \<open>The session after an attach request, before the socket has received anything.\<close>

definition attached :: session where
  "attached = snd (attachRequest \<lparr>request_seq = 1, body = None\<rparr>
      \<lparr>thingworxDomain = ''localhost'', useSSL_arg = False, thingworxAppKey = ''X'',
       thingworxPort = 8015\<rparr> new_session)"



text \<open>A result of \<^verbatim>\<open>getStackTraceInThread\<close> with two rows, and the frames made of them.\<close>

definition two_frames :: jsval where
  "two_frames = JObj [(''rows'', JArr
     [JObj [(''id'', JNum 11), (''name'', JStr ''inner''), (''source'', JStr ''/src/a.ts''),
            (''line'', JNum 5), (''column'', JNum 1)],
      JObj [(''id'', JNum 12), (''name'', JStr ''outer''), (''source'', JStr ''/src/b.ts''),
            (''line'', JNum 9), (''column'', JNum 3)]])]"

definition frame11 :: stackframe where
  "frame11 = \<lparr>sf_id = JNum 11, sf_name = JStr ''inner'', sf_source_name = ''a.ts'',
     sf_source_path = ''/src/a.ts'', sf_line = JNum 5, sf_column = JNum 1\<rparr>"

definition frame12 :: stackframe where
  "frame12 = \<lparr>sf_id = JNum 12, sf_name = JStr ''outer'', sf_source_name = ''b.ts'',
     sf_source_path = ''/src/b.ts'', sf_line = JNum 9, sf_column = JNum 3\<rparr>"

definition response1 :: response where
  "response1 = \<lparr>request_seq = 1, body = None\<rparr>"

definition response2 :: response where
  "response2 = \<lparr>request_seq = 2, body = None\<rparr>"

section \<open>Properties\<close>

lemmas step_defs = ret_def throw_def and_then_def try_catch_def lift_def emit_def
  sendResponse_def sendErrorResponse_def sendEvent_def invokeService_def
  process_request_failed_def

lemmas trace_defs = new_effects_def responses_to_def remote_calls_def

lemmas socket_defs = update_socket_def close_socket_def close_this_websocket_def

subsection \<open>Auxiliary facts\<close>

text \<open>A value that has one property can be asked for any other.\<close>

lemma get_prop_total:
  "get_prop m k = Inr v \<Longrightarrow> \<exists>w. get_prop m k' = Inr w"
  by (cases m) simp_all

lemma response_body_update_eq [simp]:
  "(r\<lparr>body := a\<rparr> = r\<lparr>body := b\<rparr>) = (a = b)"
  by (cases r) simp

text \<open>A loop whose body leaves the session alone leaves the session alone.\<close>

lemma for_each_pure:
  assumes "\<And>x acc s. snd (f x acc s) = s"
  shows "snd (for_each xs f acc s) = s"
proof (induction xs arbitrary: acc)
  case Nil
  show ?case by (simp add: ret_def)
next
  case (Cons x xs)
  have "snd (f x acc s) = s" by (rule assms)
  then show ?case
    using Cons.IH by (cases "f x acc s") (auto simp: and_then_def split: res.splits)
qed



lemma scope_of_row_pure: "snd (scope_of_row row scs s) = s"
  by (simp add: scope_of_row_def step_defs split: sum.splits)



lemma scopes_loop:
  "for_each rs scope_of_row acc s = (r, s') \<Longrightarrow> s' = s"
  using for_each_pure [of scope_of_row rs acc s, OF scope_of_row_pure] by simp

text \<open>The decimal notation of a number is never the key \<^verbatim>\<open>__proto__\<close>.\<close>

lemma digit_char_not_underscore: "digit_char d \<noteq> CHR ''_''"
  by (simp add: digit_char_def)

lemma nat_to_string_no_underscore: "CHR ''_'' \<notin> set (nat_to_string n)"
proof (induction n rule: nat_to_string.induct)
  case (1 n)
  show ?case
  proof (cases "n < 10")
    case True
    have "nat_to_string n = [digit_char n]"
      using True by (subst nat_to_string.simps) simp
    then show ?thesis using digit_char_not_underscore [of n] by auto
  next
    case False
    have "nat_to_string n = nat_to_string (n div 10) @ [digit_char (n mod 10)]"
      using False by (subst nat_to_string.simps) simp
    then show ?thesis
      using 1 [OF False] digit_char_not_underscore [of "n mod 10"] by auto
  qed
qed

lemma int_to_string_not_proto: "int_to_string f \<noteq> ''__proto__''"
proof
  assume eq: "int_to_string f = ''__proto__''"
  have "CHR ''_'' \<notin> set (int_to_string f)"
    using nat_to_string_no_underscore [of "nat f"] nat_to_string_no_underscore [of "nat (- f)"]
    by (simp add: int_to_string_def)
  with eq show False by simp
qed

text \<open>What one assignment to the mapping of frames to threads does.\<close>

lemma set_scopeThreadMapping_result:
  "set_scopeThreadMapping k v s =
     (case ToString k of
        Inl e \<Rightarrow> (Throw e, s)
      | Inr key \<Rightarrow>
          (Ret (), if key = ''__proto__'' then s
                   else s\<lparr>scopeThreadMapping := (scopeThreadMapping s)(key \<mapsto> v)\<rparr>))"
  by (simp add: set_scopeThreadMapping_def step_defs split: sum.splits)

text \<open>The session \<^const>\<open>attached\<close>, evaluated.\<close>

lemma attached_socket:
  "sockets attached = [0 \<mapsto> \<lparr>ws_url = ''ws://localhost:8015/Thingworx/ThingworxDebugger'',
      onmessage = HandshakeHandler \<lparr>request_seq = 1, body = None\<rparr>,
      onopen = AuthenticateHandler ''X'',
      onerror = AttachErrorHandler \<lparr>request_seq = 1, body = None\<rparr>,
      closed = False, sent = []\<rparr>]"
  "websocket attached = Some 0" "trace attached = []"
  by (simp_all add: attached_def attachRequest_def new_session_def Let_def int_to_string_def
        to_int32_def nat_to_string.simps digit_char_def)

subsection \<open>Initialize\<close>

text \<open>
  C7. \<^verbatim>\<open>initializeRequest\<close> always returns, and what it adds to the trace is the response
  followed by the Initialized event, in this order. The capabilities in the response have
  \<^verbatim>\<open>supportsEvaluateForHovers\<close> true, \<^verbatim>\<open>supportsStepBack\<close>, \<^verbatim>\<open>supportsCancelRequest\<close> and
  \<^verbatim>\<open>supportsDataBreakpoints\<close> false, \<^verbatim>\<open>supportsSetExpression\<close> true, and exactly the three
  exception filters \<^verbatim>\<open>exceptions\<close>, \<^verbatim>\<open>caughtExceptions\<close>, \<^verbatim>\<open>uncaughtExceptions\<close>, none of
  which supports conditions; this holds whatever the arguments and whatever body the
  response object came with.
\<close>

theorem initialize_capabilities:
  "initializeRequest response args s =
     (Ret (), s\<lparr>trace := trace s @
        [SendResponse (response\<lparr>body := Some (CapabilitiesBody (initialize_body (body response)))\<rparr>),
         SendEvent InitializedEvent]\<rparr>)
   \<and> supportsEvaluateForHovers (initialize_body (body response)) = Some True
   \<and> supportsStepBack (initialize_body (body response)) = Some False
   \<and> supportsCancelRequest (initialize_body (body response)) = Some False
   \<and> supportsDataBreakpoints (initialize_body (body response)) = Some False
   \<and> supportsSetExpression (initialize_body (body response)) = Some True
   \<and> exceptionBreakpointFilters (initialize_body (body response)) = Some exception_filters
   \<and> map filter' exception_filters = [''exceptions'', ''caughtExceptions'', ''uncaughtExceptions'']
   \<and> map supportsCondition exception_filters = [False, False, False]"
  by (simp add: initializeRequest_def step_defs initialize_body_def exception_filters_def)

subsection \<open>Rejected requests\<close>

lemmas rejected_defs = launchRequest_def reverseContinueRequest_def stepBackRequest_def
  stepInTargetsRequest_def setExpressionRequest_def dataBreakpointInfoRequest_def
  setDataBreakpointsRequest_def disassembleRequest_def setInstructionBreakpointsRequest_def
  customRequest_def unsupported_operation_def

text \<open>
  C8. Handling a request of the rejected set (launch, reverseContinue, stepBack,
  stepInTargets, setExpression, dataBreakpointInfo, setDataBreakpoints, disassemble,
  setInstructionBreakpoints, custom) returns, sends exactly one response for the request,
  which is an error response saying that the operation is not supported, and invokes no
  remote service.
\<close>

theorem rejected_requests:
  assumes "rejected req"
  shows "fst (handle h response req reply s) = Ret ()
     \<and> (\<exists>m. responses_to (request_seq response) (new_effects s (handle h response req reply s))
              = [SendErrorResponse (request_seq response) m]
            \<and> format m \<in> {''Unsupported operation'', ''Launch request not supported''})
     \<and> remote_calls (new_effects s (handle h response req reply s)) = []"
  using assms
  by (cases req) (simp_all add: rejected_defs step_defs trace_defs)

theorem rejected_requests_witness:
  "rejected StepBack
   \<and> fst (handle linux_host response1 StepBack NoReply new_session) = Ret ()
   \<and> (\<exists>m. responses_to (request_seq response1)
              (new_effects new_session (handle linux_host response1 StepBack NoReply new_session))
              = [SendErrorResponse (request_seq response1) m]
            \<and> format m \<in> {''Unsupported operation'', ''Launch request not supported''})
   \<and> remote_calls (new_effects new_session (handle linux_host response1 StepBack NoReply new_session)) = []"
proof -
  have h: "rejected StepBack" by simp
  show ?thesis
    using h rejected_requests [OF h, of linux_host response1 NoReply new_session] by simp
qed

subsection \<open>One response per request\<close>

text \<open>
  A handler that awaits its remote call and then calls \<^verbatim>\<open>sendResponse\<close>, with
  \<^verbatim>\<open>sendErrorResponse\<close> in the \<^verbatim>\<open>catch\<close>, answers exactly once whenever the call settles;
  \<^verbatim>\<open>pauseRequest\<close> is one.
\<close>

lemma pauseRequest_responds:
  "settle reply \<noteq> NeverSettles \<Longrightarrow>
   length (responses_to (request_seq response)
             (new_effects s (pauseRequest response args reply s))) = 1"
  by (cases "settle reply") (simp_all add: pauseRequest_def step_defs trace_defs)

text \<open>
  \<^verbatim>\<open>continueRequest\<close> has no call of \<^verbatim>\<open>sendResponse\<close>: when the remote call succeeds
  nothing is sent. \<^verbatim>\<open>cancelRequest\<close> sends nothing on any path, and neither does
  \<^verbatim>\<open>disconnectRequest\<close>, whose \<^verbatim>\<open>catch\<close> cannot be reached because the call of
  \<^verbatim>\<open>invokeService\<close> is not awaited.
\<close>

lemma continueRequest_resolved:
  "settle reply = Resolved v \<Longrightarrow>
   responses_to n (new_effects s (continueRequest response args reply s)) = []"
  by (simp add: continueRequest_def step_defs trace_defs)

lemma cancelRequest_silent:
  "new_effects s (cancelRequest response args s) = []"
  by (simp add: cancelRequest_def trace_defs split: option.splits)

lemma disconnectRequest_silent:
  "responses_to n (new_effects s (disconnectRequest response reply s)) = []"
  by (simp add: disconnectRequest_def step_defs trace_defs socket_defs split: option.splits)

text \<open>
  For example: a continue request whose remote call \<^verbatim>\<open>resumeAllThreads\<close> is answered with
  status 200, a cancel request, and a disconnect request whose remote call is answered
  with status 200 each leave the trace without any response to the request.
\<close>

lemma continue_cancel_disconnect_send_no_response:
  "responses_to 1 (new_effects new_session
      (continueRequest response1 \<lparr>threadId = 3, singleThread = None\<rparr>
         (Reply 200 (Some (JObj [(''rows'', JArr [])]))) new_session)) = []
   \<and> responses_to 1 (new_effects new_session
      (cancelRequest response1 \<lparr>requestId = Some 5, progressId = None\<rparr> new_session)) = []
   \<and> responses_to 1 (new_effects new_session
      (disconnectRequest response1 (Reply 200 (Some (JObj [(''rows'', JArr [])]))) new_session)) = []"
  by (simp add: continueRequest_def cancelRequest_def disconnectRequest_def step_defs trace_defs
        socket_defs new_session_def response1_def)

text \<open>Rules for code that sends or throws, and for a loop with a harmless body.\<close>

lemma sot_sendResponse:
  "request_seq r = n \<Longrightarrow> sends_or_throws n (sendResponse r)"
  by (simp add: sends_or_throws_def sendResponse_def emit_def)

lemma sot_lift:
  assumes "\<And>v. sends_or_throws n (f v)"
  shows "sends_or_throws n (and_then (lift x) f)"
proof (cases x)
  case (Inl e)
  then show ?thesis
    by (simp add: sends_or_throws_def and_then_def lift_def throw_def)
next
  case (Inr v)
  then have "and_then (lift x) f = f v"
    by (simp add: fun_eq_iff and_then_def lift_def ret_def)
  with assms show ?thesis by simp
qed

lemma row_okD:
  assumes "row_ok g" and "g x acc s = (r, s1)"
  shows "r \<noteq> Suspended \<and> trace s1 = trace s"
proof -
  from assms(1) have "fst (g x acc s) \<noteq> Suspended \<and> trace (snd (g x acc s)) = trace s"
    unfolding row_ok_def by blast
  with assms(2) show ?thesis by simp
qed

lemma sotD:
  assumes "sends_or_throws n m" and "m s = (r, s1)"
  shows "case r of Ret u \<Rightarrow> (\<exists>x. is_response_to n x \<and> trace s1 = trace s @ [x])
    | Throw e \<Rightarrow> trace s1 = trace s | Suspended \<Rightarrow> False"
proof -
  from assms(1) have "case fst (m s) of
        Ret u \<Rightarrow> (\<exists>x. is_response_to n x \<and> trace (snd (m s)) = trace s @ [x])
      | Throw e \<Rightarrow> trace (snd (m s)) = trace s
      | Suspended \<Rightarrow> False"
    unfolding sends_or_throws_def by blast
  with assms(2) show ?thesis by (cases r) simp_all
qed

lemma for_each_row_ok:
  assumes "row_ok g"
  shows "for_each rs g acc s = (r, s1) \<Longrightarrow> r \<noteq> Suspended \<and> trace s1 = trace s"
proof (induction rs arbitrary: acc s)
  case Nil
  then show ?case by (auto simp: ret_def)
next
  case (Cons x rs)
  obtain r0 s0 where step: "g x acc s = (r0, s0)" by (cases "g x acc s") blast
  note ok = row_okD [OF assms step]
  show ?case
  proof (cases r0)
    case (Ret mid)
    with step Cons.prems have "for_each rs g mid s0 = (r, s1)"
      by (simp add: and_then_def)
    from Cons.IH [OF this] ok show ?thesis by simp
  next
    case (Throw e)
    with step Cons.prems ok show ?thesis by (auto simp: and_then_def)
  next
    case Suspended
    with ok show ?thesis by simp
  qed
qed

lemma sot_loop:
  assumes "row_ok g" and "\<And>v. sends_or_throws n (f v)"
  shows "sends_or_throws n (and_then (for_each rs g acc) f)"
  unfolding sends_or_throws_def
proof
  fix s
  obtain r s1 where loop: "for_each rs g acc s = (r, s1)" by (cases "for_each rs g acc s") blast
  note ok = for_each_row_ok [OF assms(1) loop]
  show "case fst (and_then (for_each rs g acc) f s) of
          Ret u \<Rightarrow> \<exists>x. is_response_to n x \<and> trace (snd (and_then (for_each rs g acc) f s)) = trace s @ [x]
        | Throw e \<Rightarrow> trace (snd (and_then (for_each rs g acc) f s)) = trace s
        | Suspended \<Rightarrow> False"
  proof (cases r)
    case (Ret v)
    obtain r2 s2 where run: "f v s1 = (r2, s2)" by (cases "f v s1") blast
    from sotD [OF assms(2) run] loop Ret run ok show ?thesis
      by (cases r2) (simp_all add: and_then_def)
  next
    case (Throw e)
    with loop ok show ?thesis by (simp add: and_then_def)
  next
    case Suspended
    with ok show ?thesis by simp
  qed
qed

lemma try_remote_Resolved:
  "settle reply = Resolved v \<Longrightarrow>
   try_catch (and_then (invokeService name args reply) (\<lambda>p. and_then (await p) f)) h s =
   try_catch (f v) h (s\<lparr>trace := trace s @ [InvokeService name args]\<rparr>)"
  by (simp add: try_catch_def and_then_def invokeService_def emit_def ret_def)

lemma remote_handler:
  assumes "\<And>v. sends_or_throws (request_seq response) (f v)"
  shows "handled (request_seq response) reply s
           (try_catch (and_then (invokeService name args reply) (\<lambda>p. and_then (await p) f))
              (\<lambda>e. process_request_failed response text) s)"
proof (cases "settle reply")
  case (Resolved v)
  define s0 where "s0 = s\<lparr>trace := trace s @ [InvokeService name args]\<rparr>"
  have tr0: "trace s0 = trace s @ [InvokeService name args]" by (simp add: s0_def)
  obtain r s1 where run: "f v s0 = (r, s1)" by (cases "f v s0") blast
  note body = sotD [OF assms run]
  have res: "try_catch (and_then (invokeService name args reply) (\<lambda>p. and_then (await p) f))
              (\<lambda>e. process_request_failed response text) s
            = try_catch (f v) (\<lambda>e. process_request_failed response text) s0"
    using try_remote_Resolved [OF Resolved] by (simp add: s0_def)
  show ?thesis
  proof (cases r)
    case (Ret u)
    with body obtain x where x: "is_response_to (request_seq response) x" "trace s1 = trace s0 @ [x]"
      by auto
    have "trace s1 = trace s @ [InvokeService name args, x]" using x tr0 by simp
    with Ret run x Resolved show ?thesis
      unfolding res handled_def
      by (auto simp: try_catch_def trace_defs intro!: exI [of _ "[InvokeService name args, x]"])
  next
    case (Throw e)
    with body have "trace s1 = trace s @ [InvokeService name args]" using tr0 by simp
    with Throw run Resolved show ?thesis
      unfolding res handled_def
      by (auto simp: try_catch_def trace_defs process_request_failed_def sendErrorResponse_def emit_def
            intro!: exI [of _ "[InvokeService name args,
               SendErrorResponse (request_seq response) \<lparr>msg_id = 0, format = text, showUser = True\<rparr>]"])
  next
    case Suspended
    with body show ?thesis by simp
  qed
next
  case (Rejected e)
  then show ?thesis
    by (auto simp: handled_def step_defs trace_defs
          intro!: exI [of _ "[InvokeService name args,
               SendErrorResponse (request_seq response) \<lparr>msg_id = 0, format = text, showUser = True\<rparr>]"])
next
  case NeverSettles
  then show ?thesis
    by (auto simp: handled_def step_defs trace_defs intro!: exI [of _ "[InvokeService name args]"])
qed

text \<open>Rearrangements of a handler's first steps.\<close>

lemma and_then_assoc:
  "and_then (and_then m g) f = and_then m (\<lambda>x. and_then (g x) f)"
  by (auto simp: fun_eq_iff and_then_def split: prod.splits res.splits)

lemma try_catch_read:
  "try_catch (and_then (\<lambda>s. ret (g s) s) f) h s = try_catch (f (g s)) h s"
  by (simp add: try_catch_def and_then_def ret_def)

lemma try_catch_lift:
  "try_catch (and_then (lift x) f) h s = (case x of Inl e \<Rightarrow> h e s | Inr v \<Rightarrow> try_catch (f v) h s)"
  by (cases x) (simp_all add: try_catch_def and_then_def lift_def ret_def throw_def)

lemma try_catch_emit:
  "try_catch (and_then (emit e) f) h s = try_catch (f ()) h (s\<lparr>trace := trace s @ [e]\<rparr>)"
  by (simp add: try_catch_def and_then_def emit_def)

lemma handled_after_log:
  assumes "handled n reply (s\<lparr>trace := trace s @ [ConsoleLog t]\<rparr>) r"
  shows "handled n reply s r"
proof -
  from assms obtain ys where ys: "trace (snd r) = (trace s @ [ConsoleLog t]) @ ys"
    "length (responses_to n ys) =
       (if settle reply = NeverSettles \<and> remote_calls ys \<noteq> [] then 0 else 1)"
    and nothrow: "\<forall>e. fst r \<noteq> Throw e"
    by (auto simp: handled_def)
  have "trace (snd r) = trace s @ (ConsoleLog t # ys)" using ys(1) by simp
  moreover have "responses_to n (ConsoleLog t # ys) = responses_to n ys"
    "remote_calls (ConsoleLog t # ys) = remote_calls ys"
    by (simp_all add: trace_defs)
  ultimately show ?thesis
    using ys(2) nothrow unfolding handled_def by metis
qed

lemma handled_error:
  "handled (request_seq response) reply s (process_request_failed response text s)"
  by (auto simp: handled_def step_defs trace_defs
        intro!: exI [of _ "[SendErrorResponse (request_seq response)
                 \<lparr>msg_id = 0, format = text, showUser = True\<rparr>]"])

lemma handled_new_effects:
  assumes "handled n reply s r"
  shows "(\<forall>e. fst r \<noteq> Throw e)
     \<and> length (responses_to n (new_effects s r)) =
           (if settle reply = NeverSettles \<and> remote_calls (new_effects s r) \<noteq> [] then 0 else 1)"
proof -
  from assms obtain ys where ys: "trace (snd r) = trace s @ ys"
    "length (responses_to n ys) =
       (if settle reply = NeverSettles \<and> remote_calls ys \<noteq> [] then 0 else 1)"
    and nothrow: "\<forall>e. fst r \<noteq> Throw e"
    unfolding handled_def by blast
  have "new_effects s r = ys" using ys(1) by (simp add: new_effects_def)
  with ys(2) nothrow show ?thesis by simp
qed

lemma row_ok_breakpoint: "row_ok (breakpoint_of_row src)"
  by (simp add: row_ok_def breakpoint_of_row_def step_defs split: sum.splits)

lemma row_ok_location: "row_ok location_of_row"
  by (simp add: row_ok_def location_of_row_def step_defs split: sum.splits)

lemma row_ok_thread: "row_ok thread_of_row"
  by (simp add: row_ok_def thread_of_row_def step_defs split: sum.splits)

lemma row_ok_variable: "row_ok variable_of_row"
  by (simp add: row_ok_def variable_of_row_def step_defs)

lemma row_ok_scope: "row_ok scope_of_row"
  by (simp add: row_ok_def scope_of_row_def step_defs split: sum.splits)

lemma row_ok_stackframe: "row_ok (stackframe_of_row h T)"
  by (auto simp: row_ok_def stackframe_of_row_def set_scopeThreadMapping_result step_defs
           split: sum.splits if_splits)

lemmas sot_rules = sot_lift sot_loop sot_sendResponse row_ok_breakpoint row_ok_location
  row_ok_thread row_ok_variable row_ok_scope row_ok_stackframe

lemma pause_handled:
  "handled (request_seq response) reply s (pauseRequest response args reply s)"
  unfolding pauseRequest_def by (rule remote_handler) (intro sot_rules, simp)

lemma next_handled:
  "handled (request_seq response) reply s (nextRequest response args reply s)"
  unfolding nextRequest_def and_then_assoc if_cancel
  by (rule remote_handler) (intro sot_rules, simp)

lemma stepIn_handled:
  "handled (request_seq response) reply s (stepInRequest response args reply s)"
  unfolding stepInRequest_def and_then_assoc if_cancel
  by (rule remote_handler) (intro sot_rules, simp)

lemma stepOut_handled:
  "handled (request_seq response) reply s (stepOutRequest response args reply s)"
  unfolding stepOutRequest_def and_then_assoc if_cancel
  by (rule remote_handler) (intro sot_rules, simp)

lemma exceptionInfo_handled:
  "handled (request_seq response) reply s (exceptionInfoRequest response args reply s)"
  unfolding exceptionInfoRequest_def by (rule remote_handler) (intro sot_rules, simp)

lemma setExceptionBreakPoints_handled:
  "handled (request_seq response) reply s (setExceptionBreakPointsRequest response args reply s)"
  unfolding setExceptionBreakPointsRequest_def
  by (simp split: prod.splits) (intro allI impI remote_handler sot_rules, simp)

lemma threads_handled:
  "handled (request_seq response) reply s (threadsRequest response reply s)"
  unfolding threadsRequest_def by (rule remote_handler) (intro sot_rules, simp)

lemma variables_handled:
  "handled (request_seq response) reply s (variablesRequest response args reply s)"
  unfolding variablesRequest_def by (rule remote_handler) (intro sot_rules, simp)

lemma setVariable_handled:
  "handled (request_seq response) reply s (setVariableRequest response args reply s)"
  unfolding setVariableRequest_def by (rule remote_handler) (intro sot_rules, simp)

lemma stackTrace_handled:
  "handled (request_seq response) reply s (stackTraceRequest h response args reply s)"
  unfolding stackTraceRequest_def by (rule remote_handler) (intro sot_rules, simp)

lemma scopes_handled:
  "handled (request_seq response) reply s (scopesRequest response args reply s)"
  unfolding scopesRequest_def try_catch_read
  by (rule remote_handler) (intro sot_rules, simp)

lemma evaluate_handled:
  "handled (request_seq response) reply s (evaluateRequest response args reply s)"
  unfolding evaluateRequest_def Let_def try_catch_read
  by (rule remote_handler) (intro sot_rules, simp)

lemma setBreakPoints_handled:
  "handled (request_seq response) reply s (setBreakPointsRequest h response args reply s)"
  unfolding setBreakPointsRequest_def try_catch_lift
  by (cases "normalize_source_path h (src_path (sb_source args))")
     (simp_all add: handled_error, intro remote_handler sot_rules, simp)

lemma breakpointLocations_handled:
  "handled (request_seq response) reply s (breakpointLocationsRequest h response args reply s)"
proof (cases "truthy (string_value (src_path (bl_source args)))")
  case False
  then show ?thesis
    by (auto simp: breakpointLocationsRequest_def handled_def step_defs trace_defs
          intro!: exI [of _ "[SendResponse (response\<lparr>body := Some (BreakpointLocationsBody [])\<rparr>)]"])
next
  case True
  show ?thesis
  proof (cases "normalize_source_path h (src_path (bl_source args))")
    case (Inl e)
    with True show ?thesis
      by (simp add: breakpointLocationsRequest_def try_catch_lift handled_error)
  next
    case (Inr path)
    with True show ?thesis
      unfolding breakpointLocationsRequest_def try_catch_lift
      by (simp add: try_catch_emit)
         (rule handled_after_log, rule remote_handler, intro sot_rules, simp)
  qed
qed

lemma local_handled:
  "handled (request_seq response) reply s (initializeRequest response args s)"
  "handled (request_seq response) reply s (configurationDoneRequest response s)"
  "handled (request_seq response) reply s (completionsRequest response s)"
  "handled (request_seq response) reply s (launchRequest response largs s)"
  "handled (request_seq response) reply s (reverseContinueRequest response s)"
  "handled (request_seq response) reply s (stepBackRequest response s)"
  "handled (request_seq response) reply s (stepInTargetsRequest response s)"
  "handled (request_seq response) reply s (setExpressionRequest response s)"
  "handled (request_seq response) reply s (dataBreakpointInfoRequest response s)"
  "handled (request_seq response) reply s (setDataBreakpointsRequest response s)"
  "handled (request_seq response) reply s (disassembleRequest response s)"
  "handled (request_seq response) reply s (setInstructionBreakpointsRequest response s)"
  "handled (request_seq response) reply s (customRequest command response s)"
  by (simp_all add: handled_def initializeRequest_def configurationDoneRequest_def
        completionsRequest_def rejected_defs step_defs trace_defs)

lemmas handled_rules = local_handled breakpointLocations_handled setBreakPoints_handled
  evaluate_handled scopes_handled stackTrace_handled setVariable_handled variables_handled
  threads_handled setExceptionBreakPoints_handled exceptionInfo_handled stepOut_handled
  stepIn_handled next_handled pause_handled

lemma handle_handled:
  "answered_by_handler req \<Longrightarrow>
   handled (request_seq response) reply s (handle h response req reply s)"
  by (cases req) (simp_all add: handled_rules)


text \<open>
  C1, as amended. For every request other than attach, continue, cancel and disconnect,
  no exception escapes the handler, and the handler sends exactly one terminal response
  (success or error) for the request, whether its remote call succeeds or fails or it
  makes none; when its remote call never completes, it sends no response: the adapter has
  no timeout.
\<close>

theorem one_response_when_call_settles:
  assumes "answered_by_handler req"
  shows "(\<forall>e. fst (handle h response req reply s) \<noteq> Throw e)
     \<and> length (responses_to (request_seq response)
                 (new_effects s (handle h response req reply s))) =
           (if settle reply = NeverSettles
               \<and> remote_calls (new_effects s (handle h response req reply s)) \<noteq> []
            then 0 else 1)"
  by (rule handled_new_effects [OF handle_handled [OF assms]])

theorem one_response_when_call_settles_witness:
  "answered_by_handler (Pause \<lparr>threadId = 3, singleThread = None\<rparr>)
   \<and> length (responses_to (request_seq response1) (new_effects new_session
        (handle linux_host response1 (Pause \<lparr>threadId = 3, singleThread = None\<rparr>)
           (Reply 500 None) new_session))) = 1
   \<and> length (responses_to (request_seq response1) (new_effects new_session
        (handle linux_host response1 (Pause \<lparr>threadId = 3, singleThread = None\<rparr>)
           (Reply 200 (Some (JObj []))) new_session))) = 1
   \<and> length (responses_to (request_seq response1) (new_effects new_session
        (handle linux_host response1 (Pause \<lparr>threadId = 3, singleThread = None\<rparr>)
           NoReply new_session))) = 0"
proof -
  have h: "answered_by_handler (Pause \<lparr>threadId = 3, singleThread = None\<rparr>)" by simp
  have calls: "remote_calls (new_effects new_session
        (handle linux_host response1 (Pause \<lparr>threadId = 3, singleThread = None\<rparr>) NoReply new_session)) \<noteq> []"
    by (simp add: pauseRequest_def step_defs trace_defs new_session_def)
  show ?thesis
    using h calls
      one_response_when_call_settles [OF h, of linux_host response1 "Reply 500 None" new_session]
      one_response_when_call_settles [OF h, of linux_host response1 "Reply 200 (Some (JObj []))" new_session]
      one_response_when_call_settles [OF h, of linux_host response1 NoReply new_session]
    by simp
qed

text \<open>
  Without the amendment the property fails: a pause request whose remote call never
  completes leaves the handler suspended at its \<^verbatim>\<open>await\<close>, and the request without a
  response.
\<close>

theorem pending_call_leaves_request_unanswered:
  "handle linux_host response1 (Pause \<lparr>threadId = 3, singleThread = None\<rparr>) NoReply new_session
     = (Suspended, new_session\<lparr>trace := [InvokeService ''suspendThread'' [(''threadID'', JNum 3)]]\<rparr>)
   \<and> responses_to 1 (new_effects new_session
        (handle linux_host response1 (Pause \<lparr>threadId = 3, singleThread = None\<rparr>) NoReply new_session)) = []"
  by (simp add: pauseRequest_def step_defs trace_defs new_session_def response1_def)


subsection \<open>The attach handshake\<close>

text \<open>
  A first frame that is not JSON closes the socket, clears \<^verbatim>\<open>_websocket\<close> and answers the
  attach request with the error \<^verbatim>\<open>Unable to process request\<close>.
\<close>

lemma attach_onmessage_unparsable:
  "attach_onmessage a response None reply s =
     (Ret (), s\<lparr>sockets := (sockets s)(a := map_option (\<lambda>w. w\<lparr>closed := True\<rparr>) (sockets s a)),
               websocket := None,
               trace := trace s @ [SendErrorResponse (request_seq response) unable_to_process]\<rparr>)"
  by (simp add: attach_onmessage_def JSON_parse_def step_defs socket_defs)

text \<open>What the target answers to \<^verbatim>\<open>connectDebugger\<close> has no influence on the handshake.\<close>

lemma attach_onmessage_ignores_reply:
  "attach_onmessage a response e reply s = attach_onmessage a response e reply' s"
  by (simp add: attach_onmessage_def step_defs socket_defs split: sum.splits option.splits)

text \<open>
  C2. The specification says that a first frame that does not parse, or parses with
  \<^verbatim>\<open>authenticated\<close> false, resolves the attach request with the error
  \<^verbatim>\<open>Unable to process request\<close> and closes the socket. On the code the second half fails:
  after an attach request, the first frame \<^verbatim>\<open>{"authenticated": false}\<close> makes the
  handshake handler return without any response, the socket stays open, and the
  steady-state handler is installed.
\<close>

theorem attach_unauthenticated_not_resolved:
  "fst (deliver_message 0 (Some (JObj [(''authenticated'', JBool False)])) NoReply attached) = Ret ()
   \<and> new_effects attached
        (deliver_message 0 (Some (JObj [(''authenticated'', JBool False)])) NoReply attached) = []
   \<and> map_option closed
        (sockets (snd (deliver_message 0 (Some (JObj [(''authenticated'', JBool False)])) NoReply attached)) 0)
       = Some False
   \<and> map_option onmessage
        (sockets (snd (deliver_message 0 (Some (JObj [(''authenticated'', JBool False)])) NoReply attached)) 0)
       = Some EventHandler"
  by (simp add: deliver_message_def attach_onmessage_def JSON_parse_def step_defs trace_defs
       socket_defs attached_socket)

text \<open>
  C3. The specification says that, when the first frame reports \<^verbatim>\<open>authenticated\<close> true,
  \<^verbatim>\<open>connectDebugger\<close> is invoked and its failure fails the attach, with the socket closed.
  On the code the call is made, but its failure is not seen: after an attach request, with
  the first frame \<^verbatim>\<open>{"authenticated": true}\<close> and \<^verbatim>\<open>connectDebugger\<close> answered with
  status 500, the handler sends the success response and leaves the socket open.
\<close>

theorem attach_succeeds_when_connectDebugger_fails:
  "new_effects attached
     (deliver_message 0 (Some (JObj [(''authenticated'', JBool True)])) (Reply 500 None) attached)
     = [InvokeService ''connectDebugger'' [], SendResponse \<lparr>request_seq = 1, body = None\<rparr>]
   \<and> map_option closed
        (sockets (snd (deliver_message 0 (Some (JObj [(''authenticated'', JBool True)])) (Reply 500 None) attached)) 0)
       = Some False"
  by (simp add: deliver_message_def attach_onmessage_def JSON_parse_def step_defs trace_defs
       socket_defs attached_socket)

subsection \<open>Events pushed by the target\<close>

text \<open>
  C4. The specification says that a steady-state frame that is not JSON is dropped and the handler
  completes without raising. On the code the parser's exception is caught, but
  \<^verbatim>\<open>message\<close> is then undefined and reading \<^verbatim>\<open>message.name\<close> raises a TypeError, which
  leaves the handler; no event is sent.
\<close>

theorem unparsable_event_raises:
  "didRecieveMessageWithEvent None s = (Throw TypeError, s)"
  by (simp add: didRecieveMessageWithEvent_def JSON_parse_def step_defs)



subsection \<open>Frames and threads\<close>

text \<open>What one row and the whole loop of \<^verbatim>\<open>stackTraceRequest\<close> do to the session.\<close>

lemma stackframe_of_row_Ret:
  assumes "stackframe_of_row h T row acc s = (Ret fs, s')"
  shows "trace s' = trace s
       \<and> (\<exists>fr key. fs = acc @ [fr] \<and> ToString (sf_id fr) = Inr key
             \<and> (key \<noteq> ''__proto__'' \<longrightarrow> scopeThreadMapping s' key = Some T))
       \<and> (\<forall>k. scopeThreadMapping s k = Some T \<longrightarrow> scopeThreadMapping s' k = Some T)"
  using assms
  by (auto simp: stackframe_of_row_def set_scopeThreadMapping_result step_defs
           split: sum.splits if_splits)

lemma stackframe_of_row_trace:
  "trace (snd (stackframe_of_row h T row acc s)) = trace s"
  by (auto simp: stackframe_of_row_def set_scopeThreadMapping_result step_defs
           split: sum.splits if_splits)

lemma stack_loop_trace:
  "trace (snd (for_each rs (stackframe_of_row h T) acc s)) = trace s"
proof (induction rs arbitrary: acc s)
  case Nil
  show ?case by (simp add: ret_def)
next
  case (Cons row rs)
  show ?case
    using Cons.IH stackframe_of_row_trace [of h T row acc s]
    by (cases "stackframe_of_row h T row acc s")
       (auto simp: and_then_def split: res.splits)
qed

lemma stack_loop_Ret:
  assumes "for_each rs (stackframe_of_row h T) acc s = (Ret fs, s')"
  shows "(\<exists>new. fs = acc @ new
          \<and> (\<forall>fr\<in>set new. \<forall>key. ToString (sf_id fr) = Inr key \<and> key \<noteq> ''__proto__''
                \<longrightarrow> scopeThreadMapping s' key = Some T))
       \<and> (\<forall>k. scopeThreadMapping s k = Some T \<longrightarrow> scopeThreadMapping s' k = Some T)"
  using assms
proof (induction rs arbitrary: acc s)
  case Nil
  then show ?case by (simp add: ret_def)
next
  case (Cons row rs)
  from Cons.prems obtain mid s1 where
    step: "stackframe_of_row h T row acc s = (Ret mid, s1)" and
    rest: "for_each rs (stackframe_of_row h T) mid s1 = (Ret fs, s')"
    by (cases "stackframe_of_row h T row acc s")
       (auto simp: and_then_def split: res.splits)
  from stackframe_of_row_Ret [OF step] obtain fr key where
    mid: "mid = acc @ [fr]" and key: "ToString (sf_id fr) = Inr key"
    and stored: "key \<noteq> ''__proto__'' \<longrightarrow> scopeThreadMapping s1 key = Some T"
    and mono1: "\<forall>k. scopeThreadMapping s k = Some T \<longrightarrow> scopeThreadMapping s1 k = Some T"
    by blast
  from Cons.IH [OF rest] obtain new where
    fs: "fs = mid @ new"
    and new: "\<forall>fr\<in>set new. \<forall>key. ToString (sf_id fr) = Inr key \<and> key \<noteq> ''__proto__''
                \<longrightarrow> scopeThreadMapping s' key = Some T"
    and mono2: "\<forall>k. scopeThreadMapping s1 k = Some T \<longrightarrow> scopeThreadMapping s' k = Some T"
    by blast
  have "fs = acc @ (fr # new)" using fs mid by simp
  moreover have "\<forall>g\<in>set (fr # new). \<forall>k. ToString (sf_id g) = Inr k \<and> k \<noteq> ''__proto__''
                \<longrightarrow> scopeThreadMapping s' k = Some T"
    using new key stored mono2 by auto
  moreover have "\<forall>k. scopeThreadMapping s k = Some T \<longrightarrow> scopeThreadMapping s' k = Some T"
    using mono1 mono2 by blast
  ultimately show ?case by blast
qed

lemma stack_loop_trace':
  "for_each rs (stackframe_of_row h T) acc s = (r, s') \<Longrightarrow> trace s' = trace s"
  using stack_loop_trace [of rs h T acc s] by simp

text \<open>
  The remote calls of \<^verbatim>\<open>scopesRequest\<close> and \<^verbatim>\<open>evaluateRequest\<close>: one call, made before
  anything else, whose thread id is whatever the mapping holds for the frame id.
\<close>

lemma scopesRequest_remote_call:
  "remote_calls (new_effects s (scopesRequest response args reply s)) =
     [InvokeService ''getScopesInThread''
        [(''threadID'', number_value (scopeThreadMapping s (int_to_string (sc_frameId args)))),
         (''frameID'', JNum (sc_frameId args))]]"
  by (cases "settle reply")
     (auto simp: scopesRequest_def get_scopeThreadMapping_def frame_key_def step_defs trace_defs
           split: sum.splits res.splits prod.splits dest!: scopes_loop)

lemma evaluateRequest_remote_call:
  "remote_calls (new_effects s (evaluateRequest response args reply s)) =
     [InvokeService (if ev_frameId args = None then ''evaluateGlobally'' else ''evaluate'')
        [(''expression'', JStr (ev_expression args)),
         (''threadID'', number_value (scopeThreadMapping s (frame_key (ev_frameId args)))),
         (''frameID'', number_value (ev_frameId args))]]"
proof (cases "settle reply")
  case (Resolved v)
  show ?thesis
  proof (cases "get_prop v ''rows''")
    case (Inl e)
    with Resolved show ?thesis
      by (simp add: evaluateRequest_def get_scopeThreadMapping_def step_defs trace_defs Let_def)
  next
    case rows: (Inr rows)
    show ?thesis
    proof (cases "index0 rows")
      case (Inl e)
      with Resolved rows show ?thesis
        by (simp add: evaluateRequest_def get_scopeThreadMapping_def step_defs trace_defs Let_def)
    next
      case row: (Inr row)
      show ?thesis
      proof (cases "get_prop row ''value''")
        case (Inl e)
        with Resolved rows row show ?thesis
          by (simp add: evaluateRequest_def get_scopeThreadMapping_def step_defs trace_defs Let_def)
      next
        case val: (Inr val)
        obtain ty reference hint indexed named where props:
          "get_prop row ''type'' = Inr ty" "get_prop row ''variablesReference'' = Inr reference"
          "get_prop row ''presentationHint'' = Inr hint"
          "get_prop row ''indexedVariables'' = Inr indexed"
          "get_prop row ''namedVariables'' = Inr named"
          using get_prop_total [OF val] by metis
        with Resolved rows row val show ?thesis
          by (simp add: evaluateRequest_def get_scopeThreadMapping_def step_defs trace_defs Let_def)
      qed
    qed
  qed
next
  case (Rejected e)
  then show ?thesis
    by (simp add: evaluateRequest_def get_scopeThreadMapping_def step_defs trace_defs Let_def)
next
  case NeverSettles
  then show ?thesis
    by (simp add: evaluateRequest_def get_scopeThreadMapping_def step_defs trace_defs Let_def)
qed

text \<open>
  When \<^verbatim>\<open>stackTraceRequest\<close> has sent a response with frames, these frames are the result
  of the loop over the rows, and the mapping is the one the loop left.
\<close>

lemma stackTraceRequest_success:
  assumes none: "body response = None"
    and sent: "new_effects s (stackTraceRequest h response args reply s) =
           [InvokeService ''getStackTraceInThread'' [(''threadID'', JNum (st_threadId args))],
            SendResponse (response\<lparr>body := Some (StackTraceBody fs n)\<rparr>)]"
  shows "\<exists>rs s0 s1. for_each rs (stackframe_of_row h (st_threadId args)) [] s0 = (Ret fs, s1)
           \<and> scopeThreadMapping (snd (stackTraceRequest h response args reply s)) = scopeThreadMapping s1"
proof (cases "settle reply")
  case (Resolved v)
  show ?thesis
  proof (cases "get_prop v ''rows''")
    case (Inl e)
    with Resolved sent show ?thesis
      by (simp add: stackTraceRequest_def step_defs trace_defs)
  next
    case rows: (Inr rows)
    show ?thesis
    proof (cases "iterate rows")
      case (Inl e)
      with Resolved rows sent show ?thesis
        by (simp add: stackTraceRequest_def step_defs trace_defs)
    next
      case rs: (Inr rs)
      define s0 where "s0 = s\<lparr>trace := trace s @
        [InvokeService ''getStackTraceInThread'' [(''threadID'', JNum (st_threadId args))]]\<rparr>"
      obtain r s1 where loop: "for_each rs (stackframe_of_row h (st_threadId args)) [] s0 = (r, s1)"
        by (cases "for_each rs (stackframe_of_row h (st_threadId args)) [] s0") blast
      have tr: "trace s1 = trace s @
        [InvokeService ''getStackTraceInThread'' [(''threadID'', JNum (st_threadId args))]]"
        using stack_loop_trace' [OF loop] by (simp add: s0_def)
      show ?thesis
      proof (cases r)
        case (Ret fs')
        with Resolved rows rs none loop tr sent have "fs' = fs"
          by (simp add: stackTraceRequest_def step_defs trace_defs s0_def [symmetric])
        moreover from Resolved rows rs none loop Ret
        have "scopeThreadMapping (snd (stackTraceRequest h response args reply s)) = scopeThreadMapping s1"
          by (simp add: stackTraceRequest_def step_defs s0_def [symmetric])
        ultimately show ?thesis using loop Ret by blast
      next
        case (Throw e)
        with Resolved rows rs none loop tr sent show ?thesis
          by (simp add: stackTraceRequest_def step_defs trace_defs s0_def [symmetric])
      next
        case Suspended
        with Resolved rows rs none loop tr sent show ?thesis
          by (simp add: stackTraceRequest_def step_defs trace_defs s0_def [symmetric])
      qed
    qed
  qed
next
  case (Rejected e)
  with sent show ?thesis by (simp add: stackTraceRequest_def step_defs trace_defs)
next
  case NeverSettles
  with sent show ?thesis by (simp add: stackTraceRequest_def step_defs trace_defs)
qed

text \<open>
  C6, as amended. After \<^verbatim>\<open>stackTraceRequest\<close> for thread \<open>T\<close> has answered with the frames
  \<open>fs\<close>, a scopes or evaluate request that refers to a frame of \<open>fs\<close> by its number \<open>f\<close>
  invokes its remote call with \<^verbatim>\<open>threadID\<close> \<open>T\<close>. A scopes or evaluate request that refers
  to a frame number the mapping does not hold still invokes its remote call, with
  \<^verbatim>\<open>threadID\<close> undefined: the lookup is not guarded and nothing like a correlation error
  is raised.
\<close>

theorem frame_thread_index:
  "(body response = None
    \<and> new_effects s (stackTraceRequest h response args reply s) =
         [InvokeService ''getStackTraceInThread'' [(''threadID'', JNum (st_threadId args))],
          SendResponse (response\<lparr>body := Some (StackTraceBody fs n)\<rparr>)]
    \<and> fr \<in> set fs \<and> ToString (sf_id fr) = Inr (int_to_string f)
    \<longrightarrow>
      remote_calls (new_effects (snd (stackTraceRequest h response args reply s))
         (scopesRequest response' \<lparr>sc_frameId = f\<rparr> reply'
            (snd (stackTraceRequest h response args reply s)))) =
        [InvokeService ''getScopesInThread''
           [(''threadID'', JNum (st_threadId args)), (''frameID'', JNum f)]]
      \<and> remote_calls (new_effects (snd (stackTraceRequest h response args reply s))
         (evaluateRequest response' \<lparr>ev_expression = e, ev_frameId = Some f\<rparr> reply'
            (snd (stackTraceRequest h response args reply s)))) =
        [InvokeService ''evaluate''
           [(''expression'', JStr e), (''threadID'', JNum (st_threadId args)),
            (''frameID'', JNum f)]])
   \<and> (scopeThreadMapping u (int_to_string g) = None
    \<longrightarrow>
      remote_calls (new_effects u (scopesRequest response' \<lparr>sc_frameId = g\<rparr> reply' u)) =
        [InvokeService ''getScopesInThread'' [(''threadID'', JUndefined), (''frameID'', JNum g)]]
      \<and> remote_calls (new_effects u
           (evaluateRequest response' \<lparr>ev_expression = e, ev_frameId = Some g\<rparr> reply' u)) =
        [InvokeService ''evaluate''
           [(''expression'', JStr e), (''threadID'', JUndefined), (''frameID'', JNum g)]])"
proof -
  have known: "scopeThreadMapping (snd (stackTraceRequest h response args reply s)) (int_to_string f)
      = Some (st_threadId args)"
    if none: "body response = None"
    and sent: "new_effects s (stackTraceRequest h response args reply s) =
         [InvokeService ''getStackTraceInThread'' [(''threadID'', JNum (st_threadId args))],
          SendResponse (response\<lparr>body := Some (StackTraceBody fs n)\<rparr>)]"
    and fr: "fr \<in> set fs" and key: "ToString (sf_id fr) = Inr (int_to_string f)"
  proof -
    from stackTraceRequest_success [OF none sent] obtain rs s0 s1 where
      loop: "for_each rs (stackframe_of_row h (st_threadId args)) [] s0 = (Ret fs, s1)"
      and same: "scopeThreadMapping (snd (stackTraceRequest h response args reply s)) = scopeThreadMapping s1"
      by blast
    from stack_loop_Ret [OF loop] fr key int_to_string_not_proto [of f]
    have "scopeThreadMapping s1 (int_to_string f) = Some (st_threadId args)"
      by auto
    with same show ?thesis by simp
  qed
  show ?thesis
    using known
    by (simp add: scopesRequest_remote_call evaluateRequest_remote_call frame_key_def number_value_def)
qed

text \<open>The stack trace of two frames, evaluated.\<close>

lemma stackTrace_two_frames:
  "stackTraceRequest linux_host response1 \<lparr>st_threadId = 7\<rparr> (Reply 200 (Some two_frames)) new_session
     = (Ret (), new_session
         \<lparr>scopeThreadMapping := [''11'' \<mapsto> 7, ''12'' \<mapsto> 7],
          trace := [InvokeService ''getStackTraceInThread'' [(''threadID'', JNum 7)],
                    SendResponse (response1\<lparr>body := Some (StackTraceBody [frame11, frame12] (Some 2))\<rparr>)]\<rparr>)"
  by (simp add: stackTraceRequest_def stackframe_of_row_def set_scopeThreadMapping_def
        normalize_arg_def step_defs two_frames_def frame11_def frame12_def linux_host_def
        response1_def new_session_def int_to_string_def nat_to_string.simps digit_char_def)

theorem frame_thread_index_witness:
  "body response1 = None
   \<and> new_effects new_session
        (stackTraceRequest linux_host response1 \<lparr>st_threadId = 7\<rparr> (Reply 200 (Some two_frames)) new_session) =
         [InvokeService ''getStackTraceInThread'' [(''threadID'', JNum 7)],
          SendResponse (response1\<lparr>body := Some (StackTraceBody [frame11, frame12] (Some 2))\<rparr>)]
   \<and> frame12 \<in> set [frame11, frame12] \<and> ToString (sf_id frame12) = Inr (int_to_string 12)
   \<and> remote_calls (new_effects
         (snd (stackTraceRequest linux_host response1 \<lparr>st_threadId = 7\<rparr> (Reply 200 (Some two_frames)) new_session))
         (scopesRequest response2 \<lparr>sc_frameId = 12\<rparr> NoReply
            (snd (stackTraceRequest linux_host response1 \<lparr>st_threadId = 7\<rparr> (Reply 200 (Some two_frames)) new_session)))) =
        [InvokeService ''getScopesInThread'' [(''threadID'', JNum 7), (''frameID'', JNum 12)]]
   \<and> remote_calls (new_effects
         (snd (stackTraceRequest linux_host response1 \<lparr>st_threadId = 7\<rparr> (Reply 200 (Some two_frames)) new_session))
         (evaluateRequest response2 \<lparr>ev_expression = ''x'', ev_frameId = Some 12\<rparr> NoReply
            (snd (stackTraceRequest linux_host response1 \<lparr>st_threadId = 7\<rparr> (Reply 200 (Some two_frames)) new_session)))) =
        [InvokeService ''evaluate''
           [(''expression'', JStr ''x''), (''threadID'', JNum 7), (''frameID'', JNum 12)]]
   \<and> scopeThreadMapping new_session (int_to_string 99) = None
   \<and> remote_calls (new_effects new_session (scopesRequest response2 \<lparr>sc_frameId = 99\<rparr> NoReply new_session)) =
        [InvokeService ''getScopesInThread'' [(''threadID'', JUndefined), (''frameID'', JNum 99)]]
   \<and> remote_calls (new_effects new_session
        (evaluateRequest response2 \<lparr>ev_expression = ''x'', ev_frameId = Some 99\<rparr> NoReply new_session)) =
        [InvokeService ''evaluate''
           [(''expression'', JStr ''x''), (''threadID'', JUndefined), (''frameID'', JNum 99)]]"
proof -
  have hyp1: "body response1 = None
   \<and> new_effects new_session
        (stackTraceRequest linux_host response1 \<lparr>st_threadId = 7\<rparr> (Reply 200 (Some two_frames)) new_session) =
         [InvokeService ''getStackTraceInThread'' [(''threadID'', JNum (st_threadId \<lparr>st_threadId = 7\<rparr>))],
          SendResponse (response1\<lparr>body := Some (StackTraceBody [frame11, frame12] (Some 2))\<rparr>)]
   \<and> frame12 \<in> set [frame11, frame12] \<and> ToString (sf_id frame12) = Inr (int_to_string 12)"
  proof -
    have "body response1 = None" by (simp add: response1_def)
    moreover have "trace new_session = []" by (simp add: new_session_def)
    moreover have "ToString (sf_id frame12) = Inr (int_to_string 12)" by (simp add: frame12_def)
    ultimately show ?thesis by (simp add: stackTrace_two_frames trace_defs)
  qed
  have hyp2: "scopeThreadMapping new_session (int_to_string 99) = None"
    by (simp add: new_session_def)
  show ?thesis
    using hyp1 hyp2
      frame_thread_index [of response1 new_session linux_host "\<lparr>st_threadId = 7\<rparr>"
        "Reply 200 (Some two_frames)" "[frame11, frame12]" "Some 2" frame12 12
        response2 NoReply "''x''" new_session 99]
    by simp
qed

text \<open>
  Without the amendment the property fails: in a session that has recorded no frame, a scopes request for
  frame 99 invokes \<^verbatim>\<open>getScopesInThread\<close> with an undefined thread id.
\<close>

theorem unknown_frame_reaches_remote_call:
  "new_effects new_session (scopesRequest response1 \<lparr>sc_frameId = 99\<rparr> NoReply new_session) =
     [InvokeService ''getScopesInThread'' [(''threadID'', JUndefined), (''frameID'', JNum 99)]]"
  by (simp add: scopesRequest_def get_scopeThreadMapping_def frame_key_def number_value_def
        step_defs trace_defs new_session_def)

subsection \<open>Path normalization\<close>








subsection \<open>Continue\<close>

text \<open>
  Which remote call \<^verbatim>\<open>continueRequest\<close> makes, and the body it assigns to the response
  object when the call succeeds.
\<close>

lemma continueRequest_remote_call:
  "remote_calls (new_effects s (continueRequest response args reply s)) =
     (if singleThread args = Some True
      then [InvokeService ''resumeThread'' [(''threadID'', JNum (threadId args))]]
      else [InvokeService ''resumeAllThreads'' []])"
  by (cases "settle reply") (simp_all add: continueRequest_def step_defs trace_defs)

lemma continueRequest_body:
  "settle reply = Resolved v \<Longrightarrow>
   fst (continueRequest response args reply s) =
     Ret (response\<lparr>body := Some (ContinueBody (singleThread args \<noteq> Some True))\<rparr>)"
  by (simp add: continueRequest_def step_defs)

text \<open>
  C10. The specification says that a continue request with \<^verbatim>\<open>singleThread\<close> true for thread \<open>t\<close>
  invokes \<^verbatim>\<open>resumeThread\<close> with that thread id and that the response carries
  \<^verbatim>\<open>allThreadsContinued\<close> false. On the code the call is made and the body is assigned to
  the response object, but the response is never sent: for thread 3, with the remote call
  answered with status 200, the trace holds the remote call and nothing else.
\<close>

theorem continue_single_thread_response_not_sent:
  "continueRequest response1 \<lparr>threadId = 3, singleThread = Some True\<rparr>
      (Reply 200 (Some (JObj [(''rows'', JArr [])]))) new_session
   = (Ret (response1\<lparr>body := Some (ContinueBody False)\<rparr>),
      new_session\<lparr>trace := [InvokeService ''resumeThread'' [(''threadID'', JNum 3)]]\<rparr>)"
  by (simp add: continueRequest_def step_defs new_session_def)

end
